theory Spec2Isabelle
  imports Main "HOL-Library.Multiset"
begin

section \<open>Errors, observable effects and promises\<close>

text \<open>
  The values a promise of InstallManager.ts is rejected with. The custom error classes of
  util/CustomErrors are kept apart because the code dispatches on them with
  \<^verbatim>\<open>instanceof\<close>; \<open>ProcessCanceled\<close> carries its message and the flag
  \<^verbatim>\<open>extraInfo.alreadyReported\<close>; \<open>Error\<close> is a plain JavaScript error with its
  message, its \<^verbatim>\<open>code\<close> (set by the file system layer) and its stack. A promise can
  also be rejected with \<^verbatim>\<open>null\<close>, \<^verbatim>\<open>undefined\<close> or a string, which the
  handlers of \<^verbatim>\<open>install\<close> test for.
\<close>

datatype err =
    UserCanceled
  | TemporaryError string
  | ProcessCanceled string bool
  | NotFound string
  | SetupError string
  | DataInvalid string
  | ArchiveBrokenError string
  | Error string "string option" "string option"
  | TypeError string
  | ErrNull
  | ErrUndefined
  | ErrString string

text \<open>
  IModReference and IModRule (an IRule of modmeta-db), as far as the install manager reads
  them. \<open>ref_id\<close> is the field \<^verbatim>\<open>id\<close>, \<open>rule_type\<close> the field \<^verbatim>\<open>type\<close>;
  \<open>rule_extra\<close> stands for the fields that are only passed on.
\<close>

record IModReference =
  ref_id :: "string option"
  fileMD5 :: "string option"
  versionMatch :: "string option"
  logicalFileName :: "string option"
  fileExpression :: "string option"

record IModRule =
  rule_type :: string
  reference :: IModReference
  rule_extra :: "string option"

text \<open>Actions dispatched to the store (actions/mods and profile_management/actions).\<close>

datatype store_action =
    SetModAttribute string string "string option" "string option"
  | SetModType string string "string option"
  | AddModRule string string "IModRule option"
  | RemoveModRule string string "IModRule option"
  | SetModEnabled string string bool
  | SetFileOverride string string "string list option"

text \<open>
  The effects of a run that an observer outside the install manager sees, in the order in
  which they happen. File system events carry the outcome of the call (\<open>None\<close>: it
  resolved).
\<close>

datatype event =
    EnsureDir string "err option"
  | Rename string string "err option"
  | CopyFile string string "err option"
  | WriteFile string "string option" "err option"
  | Remove string "err option"
  | Dispatch store_action
  | ShowErrorNotification string string "bool option"
  | SendNotification string string
  | ShowDialog string "string list"
  | EmitEvent string "string list"
  | NestedInstall string string "err option"
  | ExtractFull string string "err option"
  | RunInstaller int "err option"
  | InstallMod string "err option"
  | StartIndicator string
  | StartInstall string string "string option"
  | SetInstallPath string string
  | SetModTypeCtx string string
  | SetProgress
  | ReportError string "bool option"
  | FinishInstall string
  | StopIndicator
  | Callback "err option" "string option"

text \<open>
  The state threaded through a run: the world outside the install manager (file system,
  store, user), of which the model knows nothing, and the trace of effects so far.
\<close>

record 'w st =
  world :: 'w
  trace :: "event list"

text \<open>
  A promise is run in a state and settles in a state: rejected (\<open>Inl\<close>) or resolved
  (\<open>Inr\<close>). The state may carry more fields than \<open>world\<close> and \<open>trace\<close> (the
  variables that the closures of \<^verbatim>\<open>install\<close> share), which the operations below
  leave alone.
\<close>

type_synonym ('w, 'z, 'a) prom =
  "('w, 'z) st_scheme \<Rightarrow> (err + 'a) \<times> ('w, 'z) st_scheme"

definition resolve :: "'a \<Rightarrow> ('w, 'z, 'a) prom" where
  "resolve x s = (Inr x, s)"

definition reject :: "err \<Rightarrow> ('w, 'z, 'a) prom" where
  "reject e s = (Inl e, s)"

text \<open>\<^verbatim>\<open>p.then(f)\<close>: a rejection of \<open>p\<close> skips \<open>f\<close>.\<close>

definition then_p :: "('w, 'z, 'a) prom \<Rightarrow> ('a \<Rightarrow> ('w, 'z, 'b) prom) \<Rightarrow> ('w, 'z, 'b) prom" where
  "then_p p f s = (case p s of (Inl e, s') \<Rightarrow> (Inl e, s') | (Inr x, s') \<Rightarrow> f x s')"

text \<open>\<^verbatim>\<open>p.catch(h)\<close>: only a rejection of \<open>p\<close> runs \<open>h\<close>.\<close>

definition catch_p :: "('w, 'z, 'a) prom \<Rightarrow> (err \<Rightarrow> ('w, 'z, 'a) prom) \<Rightarrow> ('w, 'z, 'a) prom" where
  "catch_p p h s = (case p s of (Inl e, s') \<Rightarrow> h e s' | (Inr x, s') \<Rightarrow> (Inr x, s'))"

text \<open>
  Bluebird's \<^verbatim>\<open>p.finally(h)\<close>: \<open>h\<close> runs on both outcomes; the outcome of \<open>p\<close> is
  passed on unless the promise returned by \<open>h\<close> is rejected, which then is the outcome.
\<close>

definition finally_p :: "('w, 'z, 'a) prom \<Rightarrow> ('w, 'z, 'b) prom \<Rightarrow> ('w, 'z, 'a) prom" where
  "finally_p p h s =
     (case p s of (r, s') \<Rightarrow>
        (case h s' of (Inl e, s'') \<Rightarrow> (Inl e, s'') | (Inr _, s'') \<Rightarrow> (r, s'')))"

text \<open>An effect that cannot fail as far as the install manager is concerned.\<close>

definition emit :: "event \<Rightarrow> ('w, 'z, unit) prom" where
  "emit ev s = (Inr (), s\<lparr>trace := trace s @ [ev]\<rparr>)"

definition outcome :: "err + 'a \<Rightarrow> err option" where
  "outcome r = (case r of Inl e \<Rightarrow> Some e | Inr _ \<Rightarrow> None)"

text \<open>
  A call of an operation of the outside world: it answers, changes the world, and the call
  is recorded with its outcome.
\<close>

definition call :: "('w \<Rightarrow> (err + 'a) \<times> 'w) \<Rightarrow> (err option \<Rightarrow> event) \<Rightarrow> ('w, 'z, 'a) prom" where
  "call op ev s =
     (case op (world s) of (r, w') \<Rightarrow> (r, s\<lparr>world := w', trace := trace s @ [ev (outcome r)]\<rparr>))"

text \<open>The same for an operation that only reads the world, and is not recorded.\<close>

definition query :: "('w \<Rightarrow> (err + 'a) \<times> 'w) \<Rightarrow> ('w, 'z, 'a) prom" where
  "query op s = (case op (world s) of (r, w') \<Rightarrow> (r, s\<lparr>world := w'\<rparr>))"

text \<open>
  \<open>appends P p\<close>: whatever the state, \<open>p\<close> only appends events to the trace, and
  every event it appends satisfies \<open>P\<close>.
\<close>

definition appends :: "(event \<Rightarrow> bool) \<Rightarrow> ('w, 'z, 'a) prom \<Rightarrow> bool" where
  "appends P p = (\<forall>s. \<exists>evs. trace (snd (p s)) = trace s @ evs \<and> list_all P evs)"


text \<open>\<^verbatim>\<open>Promise.each(xs, f)\<close>: one element after the other, stopping at the first rejection.\<close>

fun each_p :: "('a \<Rightarrow> ('w, 'z, unit) prom) \<Rightarrow> 'a list \<Rightarrow> ('w, 'z, unit) prom" where
  "each_p f [] = resolve ()"
| "each_p f (x # xs) = then_p (f x) (\<lambda>_. each_p f xs)"

text \<open>
  \<^verbatim>\<open>err.code\<close> inside a catch handler: reading a property of \<^verbatim>\<open>null\<close> or
  \<^verbatim>\<open>undefined\<close> throws a TypeError; only file system errors carry a code.
\<close>

fun err_code :: "err \<Rightarrow> err + string option" where
  "err_code ErrNull = Inl (TypeError ''Cannot read property code of null'')"
| "err_code ErrUndefined = Inl (TypeError ''Cannot read property code of undefined'')"
| "err_code (Error m c stk) = Inr c"
| "err_code e = Inr None"

text \<open>
  \<^verbatim>\<open>err.message\<close>. ArchiveBrokenError (defined in InstallManager.ts) prefixes its
  argument; the classes of util/CustomErrors are taken to pass theirs on, UserCanceled
  having the fixed message "canceled by user"; a string has no such property.
\<close>

fun err_message :: "err \<Rightarrow> err + string option" where
  "err_message ErrNull = Inl (TypeError ''Cannot read property message of null'')"
| "err_message ErrUndefined = Inl (TypeError ''Cannot read property message of undefined'')"
| "err_message UserCanceled = Inr (Some ''canceled by user'')"
| "err_message (TemporaryError m) = Inr (Some m)"
| "err_message (ProcessCanceled m r) = Inr (Some m)"
| "err_message (NotFound m) = Inr (Some m)"
| "err_message (SetupError m) = Inr (Some m)"
| "err_message (DataInvalid m) = Inr (Some m)"
| "err_message (ArchiveBrokenError m) = Inr (Some (''Archive is broken: '' @ m))"
| "err_message (Error m c stk) = Inr (Some m)"
| "err_message (TypeError m) = Inr (Some m)"
| "err_message (ErrString m) = Inr None"

text \<open>\<^verbatim>\<open>s.indexOf(sub) !== -1\<close>.\<close>

fun contains :: "string \<Rightarrow> string \<Rightarrow> bool" where
  "contains sub [] = (sub = [])"
| "contains sub (c # cs) = (take (length sub) (c # cs) = sub \<or> contains sub cs)"

section \<open>Instructions\<close>

datatype InstructionType =
    Copy | Mkdir | Submodule | Generatefile | Iniedit | Unsupported | Attribute
  | Setmodtype | ErrorInstr | RuleInstr | OtherType string

text \<open>
  IInstruction: every field but the type is optional (\<open>None\<close>: \<^verbatim>\<open>undefined\<close>).
  \<open>ivalue\<close>, \<open>isection\<close> and \<open>irule\<close> are the fields \<^verbatim>\<open>value\<close>, \<^verbatim>\<open>section\<close> and
  \<^verbatim>\<open>rule\<close>.
\<close>

record IInstruction =
  itype :: InstructionType
  source :: "string option"
  destination :: "string option"
  isection :: "string option"
  key :: "string option"
  ivalue :: "string option"
  data :: "string option"
  path :: "string option"
  submoduleType :: "string option"
  irule :: "IModRule option"

text \<open>What \<^verbatim>\<open>result.instructions\<close> of an installer can be.\<close>

datatype instructions = InstrNull | InstrUndefined | InstrList "IInstruction list"

record IInvalidInstruction =
  inv_type :: InstructionType
  inv_error :: string

record InstructionGroups =
  g_copy :: "IInstruction list"
  g_mkdir :: "IInstruction list"
  g_submodule :: "IInstruction list"
  g_generatefile :: "IInstruction list"
  g_iniedit :: "IInstruction list"
  g_unsupported :: "IInstruction list"
  g_attribute :: "IInstruction list"
  g_setmodtype :: "IInstruction list"
  g_error :: "IInstruction list"
  g_rule :: "IInstruction list"

text \<open>
  IModType and IGame, as far as the install manager reads them. The test of a mod type is
  asynchronous and supplied by a game extension.
\<close>

record 'w IModType =
  typeId :: string
  mt_priority :: int
  test :: "instructions \<Rightarrow> 'w \<Rightarrow> (err + bool) \<times> 'w"

record 'w IGame =
  contributed :: "string option"
  modTypes :: "'w IModType list"

section \<open>The environment\<close>

text \<open>
  Everything InstallManager.ts imports and calls but does not define: Node's
  \<^verbatim>\<open>path\<close> and \<^verbatim>\<open>os\<close> modules and \<^verbatim>\<open>process.platform\<close>,
  \<^verbatim>\<open>isPathValid\<close> of util/util, \<^verbatim>\<open>getGame\<close>, the promise-returning file system
  wrappers of util/fs and \<^verbatim>\<open>getNormalizeFunc\<close>. The file system operations act on
  the world; the theorems hold for every environment.

  \<open>nestedInstall\<close> stands for the run of \<^verbatim>\<open>installInner\<close> followed by
  \<^verbatim>\<open>processInstructions\<close> on the archive of a submodule instruction (archive path,
  staging path, destination path, game, key): how deep archives nest is decided by the
  archives, so the nested run is an operation of the world here.
\<close>

record 'w env =
  win32 :: bool
  sep :: char
  EOL :: string
  path_join :: "string \<Rightarrow> string \<Rightarrow> string"
  path_dirname :: "string \<Rightarrow> string"
  path_basename :: "string \<Rightarrow> string"
  path_extname :: "string \<Rightarrow> string"
  isPathValid :: "string \<Rightarrow> bool \<Rightarrow> bool"
  getGame :: "string \<Rightarrow> 'w IGame option"
  ensureDirAsync :: "string \<Rightarrow> 'w \<Rightarrow> (err + unit) \<times> 'w"
  statAsync :: "string \<Rightarrow> 'w \<Rightarrow> (err + bool) \<times> 'w"
  renameAsync :: "string \<Rightarrow> string \<Rightarrow> 'w \<Rightarrow> (err + unit) \<times> 'w"
  copyAsync :: "string \<Rightarrow> string \<Rightarrow> 'w \<Rightarrow> (err + unit) \<times> 'w"
  writeFileAsync :: "string \<Rightarrow> string option \<Rightarrow> 'w \<Rightarrow> (err + unit) \<times> 'w"
  removeAsync :: "string \<Rightarrow> 'w \<Rightarrow> (err + unit) \<times> 'w"
  getNormalizeFunc :: "string \<Rightarrow> 'w \<Rightarrow> (err + unit) \<times> 'w"
  nestedInstall :: "string option \<Rightarrow> string \<Rightarrow> string \<Rightarrow> string \<Rightarrow> string option
                     \<Rightarrow> 'w \<Rightarrow> (err + unit) \<times> 'w"
  dispatch :: "store_action \<Rightarrow> 'w \<Rightarrow> 'w"

definition fs_ensureDir :: "'w env \<Rightarrow> string \<Rightarrow> ('w, 'z, unit) prom" where
  "fs_ensureDir env p = call (ensureDirAsync env p) (EnsureDir p)"

definition fs_stat :: "'w env \<Rightarrow> string \<Rightarrow> ('w, 'z, bool) prom" where
  "fs_stat env p = query (statAsync env p)"

definition fs_rename :: "'w env \<Rightarrow> string \<Rightarrow> string \<Rightarrow> ('w, 'z, unit) prom" where
  "fs_rename env a b = call (renameAsync env a b) (Rename a b)"

definition fs_copy :: "'w env \<Rightarrow> string \<Rightarrow> string \<Rightarrow> ('w, 'z, unit) prom" where
  "fs_copy env a b = call (copyAsync env a b) (CopyFile a b)"

definition fs_writeFile :: "'w env \<Rightarrow> string \<Rightarrow> string option \<Rightarrow> ('w, 'z, unit) prom" where
  "fs_writeFile env p d = call (writeFileAsync env p d) (WriteFile p d)"

definition fs_remove :: "'w env \<Rightarrow> string \<Rightarrow> ('w, 'z, unit) prom" where
  "fs_remove env p = call (removeAsync env p) (Remove p)"

definition store_dispatch :: "'w env \<Rightarrow> store_action \<Rightarrow> ('w, 'z, unit) prom" where
  "store_dispatch env a s =
     (Inr (), s\<lparr>world := dispatch env a (world s), trace := trace s @ [Dispatch a]\<rparr>)"

text \<open>
  \<^verbatim>\<open>path.join(base, rel)\<close> where \<open>rel\<close> is read from an optional field: Node's
  \<^verbatim>\<open>path.join\<close> throws a TypeError on an argument that is not a string.
\<close>

definition join_field :: "'w env \<Rightarrow> string \<Rightarrow> string option \<Rightarrow> ('w, 'z, string) prom" where
  "join_field env base rel =
     (case rel of
        None \<Rightarrow> reject (TypeError ''The path argument must be of type string'')
      | Some r \<Rightarrow> resolve (path_join env base r))"

section \<open>JavaScript objects used as dictionaries\<close>

text \<open>A template string renders \<^verbatim>\<open>undefined\<close> as the text "undefined"; so does a property key.\<close>

definition js_str :: "string option \<Rightarrow> string" where
  "js_str v = (case v of None \<Rightarrow> ''undefined'' | Some s \<Rightarrow> s)"

definition dq :: string where
  "dq = [CHR 0x22]"

text \<open>
  Modelled from the spec: \<^verbatim>\<open>setdefault(obj, key, def)\<close> of util/util is not under
  src/; the copy stage and the ini stage use it to "group by" a key: the value stored under
  the key is returned, after storing \<open>def\<close> when the key was absent. \<open>group_push\<close> is
  \<^verbatim>\<open>setdefault(prev, k, []).push(v)\<close> on an object kept as an association list in
  insertion order.
\<close>

fun group_push :: "(string \<times> 'a list) list \<Rightarrow> string \<Rightarrow> 'a \<Rightarrow> (string \<times> 'a list) list" where
  "group_push [] k v = [(k, [v])]"
| "group_push ((k', vs) # rest) k v =
     (if k' = k then (k', vs @ [v]) # rest else (k', vs) # group_push rest k v)"

definition group_by :: "('a \<Rightarrow> string) \<Rightarrow> ('a \<Rightarrow> 'b) \<Rightarrow> 'a list \<Rightarrow> (string \<times> 'b list) list" where
  "group_by kf vf xs = foldl (\<lambda>prev x. group_push prev (kf x) (vf x)) [] xs"

definition group_get :: "(string \<times> 'a list) list \<Rightarrow> string \<Rightarrow> 'a list" where
  "group_get m k = (case map_of m k of None \<Rightarrow> [] | Some vs \<Rightarrow> vs)"

text \<open>
  \<^verbatim>\<open>Object.keys\<close>: the keys that are array indices (canonical decimal numerals below
  \<open>2^32 - 1\<close>) come first, in ascending numeric order, then the other keys in the order in
  which they were inserted.
\<close>

definition is_digit :: "char \<Rightarrow> bool" where
  "is_digit c = (c \<in> set ''0123456789'')"

definition digits_nat :: "string \<Rightarrow> nat" where
  "digits_nat s = foldl (\<lambda>n c. 10 * n + (of_char c - 48)) 0 s"

definition is_array_index :: "string \<Rightarrow> bool" where
  "is_array_index s =
     (s \<noteq> [] \<and> list_all is_digit s \<and> (s = ''0'' \<or> hd s \<noteq> CHR ''0'')
      \<and> digits_nat s < 4294967295)"

definition object_keys :: "(string \<times> 'a) list \<Rightarrow> string list" where
  "object_keys m =
     sort_key digits_nat (filter is_array_index (map fst m))
     @ filter (\<lambda>k. \<not> is_array_index k) (map fst m)"

text \<open>
  \<^verbatim>\<open>Promise.map(xs, f)\<close> without a concurrency limit: \<open>f\<close> is started on every
  element, and the result is rejected when one of them is. The runs are taken in the order
  of the list here, and the rejection passed on is the first in that order.
\<close>

fun map_all :: "('a \<Rightarrow> ('w, 'z, unit) prom) \<Rightarrow> 'a list \<Rightarrow> ('w, 'z, unit) prom" where
  "map_all f [] = resolve ()"
| "map_all f (x # xs) =
     (\<lambda>s. case f x s of
        (Inl e, s') \<Rightarrow> (case map_all f xs s' of (_, s'') \<Rightarrow> (Inl e, s''))
      | (Inr _, s') \<Rightarrow> map_all f xs s')"

section \<open>The instruction processor\<close>

subsection \<open>validateInstructions, transformInstructions, reportUnsupported\<close>

definition sanitize_destination :: "'w env \<Rightarrow> string \<Rightarrow> string" where
  "sanitize_destination env d =
     (let destination = (case d of [] \<Rightarrow> d | c # rest \<Rightarrow> if c = sep env then rest else d)
      in if win32 env
         then map (\<lambda>c. if c = CHR ''/'' then sep env else c) destination
         else destination)"

definition invalid_destination :: "'w env \<Rightarrow> IInstruction \<Rightarrow> bool" where
  "invalid_destination env instr =
     (case destination instr of
        None \<Rightarrow> False
      | Some d \<Rightarrow> d \<noteq> [] \<and> \<not> isPathValid env (sanitize_destination env d) True)"

definition validateInstructions :: "'w env \<Rightarrow> IInstruction list \<Rightarrow> IInvalidInstruction list" where
  "validateInstructions env instrs =
     map (\<lambda>instr. \<lparr>inv_type = itype instr,
                   inv_error = ''invalid destination path: '' @ dq @ js_str (destination instr) @ dq\<rparr>)
       (filter (invalid_destination env) instrs)"

definition empty_groups :: InstructionGroups where
  "empty_groups = \<lparr>g_copy = [], g_mkdir = [], g_submodule = [], g_generatefile = [],
     g_iniedit = [], g_unsupported = [], g_attribute = [], g_setmodtype = [], g_error = [],
     g_rule = []\<rparr>"

text \<open>\<^verbatim>\<open>prev[value.type].push(value)\<close>, when the group exists.\<close>

definition push_instruction :: "InstructionGroups \<Rightarrow> IInstruction \<Rightarrow> InstructionGroups" where
  "push_instruction prev v =
     (case itype v of
        Copy \<Rightarrow> prev\<lparr>g_copy := g_copy prev @ [v]\<rparr>
      | Mkdir \<Rightarrow> prev\<lparr>g_mkdir := g_mkdir prev @ [v]\<rparr>
      | Submodule \<Rightarrow> prev\<lparr>g_submodule := g_submodule prev @ [v]\<rparr>
      | Generatefile \<Rightarrow> prev\<lparr>g_generatefile := g_generatefile prev @ [v]\<rparr>
      | Iniedit \<Rightarrow> prev\<lparr>g_iniedit := g_iniedit prev @ [v]\<rparr>
      | Unsupported \<Rightarrow> prev\<lparr>g_unsupported := g_unsupported prev @ [v]\<rparr>
      | Attribute \<Rightarrow> prev\<lparr>g_attribute := g_attribute prev @ [v]\<rparr>
      | Setmodtype \<Rightarrow> prev\<lparr>g_setmodtype := g_setmodtype prev @ [v]\<rparr>
      | ErrorInstr \<Rightarrow> prev\<lparr>g_error := g_error prev @ [v]\<rparr>
      | RuleInstr \<Rightarrow> prev\<lparr>g_rule := g_rule prev @ [v]\<rparr>
      | OtherType _ \<Rightarrow> prev)"

definition transformInstructions :: "IInstruction list \<Rightarrow> InstructionGroups" where
  "transformInstructions input = foldl push_instruction empty_groups input"

definition reportUnsupported :: "IInstruction list \<Rightarrow> string \<Rightarrow> ('w, 'z, unit) prom" where
  "reportUnsupported unsupported archivePath =
     (if unsupported = [] then resolve ()
      else emit (SendNotification ''info'' ''Installer unsupported''))"

subsection \<open>The stages\<close>

definition processMKDir :: "'w env \<Rightarrow> IInstruction list \<Rightarrow> string \<Rightarrow> ('w, 'z, unit) prom" where
  "processMKDir env instrs destinationPath =
     each_p (\<lambda>instruction.
        then_p (join_field env destinationPath (destination instruction)) (fs_ensureDir env))
       instrs"

definition processGenerateFiles :: "'w env \<Rightarrow> IInstruction list \<Rightarrow> string \<Rightarrow> ('w, 'z, unit) prom" where
  "processGenerateFiles env generatefile destinationPath =
     each_p (\<lambda>gen.
        then_p (join_field env destinationPath (destination gen)) (\<lambda>outputPath.
        then_p (fs_ensureDir env (path_dirname env outputPath)) (\<lambda>_.
        fs_writeFile env outputPath (data gen))))
       generatefile"

definition INI_TWEAKS_PATH :: string where
  "INI_TWEAKS_PATH = ''Ini Tweaks''"

definition join_lines :: "string \<Rightarrow> string list \<Rightarrow> string" where
  "join_lines eol xs = (case xs of [] \<Rightarrow> [] | x # rest \<Rightarrow> foldl (\<lambda>acc y. acc @ eol @ y) x rest)"

definition renderKV :: "IInstruction \<Rightarrow> string" where
  "renderKV instruction = js_str (key instruction) @ '' = '' @ js_str (ivalue instruction)"

definition renderSection :: "'w env \<Rightarrow> (string \<times> IInstruction list) list \<Rightarrow> string \<Rightarrow> string" where
  "renderSection env bySection sec =
     join_lines (EOL env) ((''['' @ sec @ '']'') # map renderKV (group_get bySection sec))"

definition iniContent :: "'w env \<Rightarrow> IInstruction list \<Rightarrow> string" where
  "iniContent env edits =
     (let bySection = group_by (\<lambda>v. js_str (isection v)) (\<lambda>v. v) edits
      in join_lines (EOL env) (map (renderSection env bySection) (object_keys bySection)))"

definition processIniEdits :: "'w env \<Rightarrow> IInstruction list \<Rightarrow> string \<Rightarrow> ('w, 'z, unit) prom" where
  "processIniEdits env iniEdits destinationPath =
     (if iniEdits = [] then resolve ()
      else
        let byDest = group_by (\<lambda>v. js_str (destination v)) (\<lambda>v. v) iniEdits;
            tweaks = path_join env destinationPath INI_TWEAKS_PATH
        in then_p (fs_ensureDir env tweaks) (\<lambda>_.
             map_all (\<lambda>dest.
                fs_writeFile env (path_join env tweaks dest)
                  (Some (iniContent env (group_get byDest dest))))
               (object_keys byDest)))"

definition processSubmodule ::
  "'w env \<Rightarrow> IInstruction list \<Rightarrow> string \<Rightarrow> string \<Rightarrow> string \<Rightarrow> ('w, 'z, unit) prom" where
  "processSubmodule env submodule destinationPath gameId modId =
     each_p (\<lambda>m.
        let tempPath = destinationPath @ ''.'' @ js_str (key m) @ ''.installing'' in
        finally_p
          (then_p (call (nestedInstall env (path m) tempPath destinationPath gameId (key m))
                     (NestedInstall (js_str (path m)) tempPath))
             (\<lambda>_. case submoduleType m of
                     None \<Rightarrow> resolve ()
                   | Some t \<Rightarrow> store_dispatch env (SetModType gameId modId (Some t))))
          (fs_remove env tempPath))
       submodule"

definition processAttribute ::
  "'w env \<Rightarrow> IInstruction list \<Rightarrow> string \<Rightarrow> string \<Rightarrow> ('w, 'z, unit) prom" where
  "processAttribute env attribute gameId modId =
     each_p (\<lambda>attr. store_dispatch env (SetModAttribute gameId modId (key attr) (ivalue attr)))
       attribute"

definition processSetModType ::
  "'w env \<Rightarrow> IInstruction list \<Rightarrow> string \<Rightarrow> string \<Rightarrow> ('w, 'z, unit) prom" where
  "processSetModType env types gameId modId =
     (if length types > 0
      then store_dispatch env (SetModType gameId modId (ivalue (types ! (length types - 1))))
      else resolve ())"

definition processRule ::
  "'w env \<Rightarrow> IInstruction list \<Rightarrow> string \<Rightarrow> string \<Rightarrow> ('w, 'z, unit) prom" where
  "processRule env rules gameId modId =
     each_p (\<lambda>r. store_dispatch env (AddModRule gameId modId (irule r))) rules"

subsection \<open>fixDestination, transferFile, extractArchive\<close>

definition fixDestination :: "'w env \<Rightarrow> string \<Rightarrow> string \<Rightarrow> ('w, 'z, string) prom" where
  "fixDestination env src dest =
     catch_p
       (then_p (fs_stat env src) (\<lambda>sourceIsDirectory.
          if sourceIsDirectory then resolve dest
          else then_p (fs_stat env dest) (\<lambda>destIsDirectory.
                 resolve (if destIsDirectory
                          then path_join env dest (path_basename env src)
                          else dest))))
       (\<lambda>_. resolve dest)"

definition transferFile :: "'w env \<Rightarrow> string \<Rightarrow> string \<Rightarrow> bool \<Rightarrow> ('w, 'z, unit) prom" where
  "transferFile env src dest move =
     then_p (fs_ensureDir env (path_dirname env dest)) (\<lambda>_.
     then_p (fixDestination env src dest) (\<lambda>fixedDest.
       if move then fs_rename env src fixedDest else fs_copy env src fixedDest))"

text \<open>
  The body of the inner \<^verbatim>\<open>mapSeries\<close> callback of \<^verbatim>\<open>extractArchive\<close> for one
  destination: the transfer and its catch handler. \<open>missingFiles\<close> is the array the
  closure pushes to; the updated array is the result.
\<close>

definition transferDestination ::
  "'w env \<Rightarrow> string \<Rightarrow> string \<Rightarrow> string \<Rightarrow> string option \<Rightarrow> bool \<Rightarrow> string list
     \<Rightarrow> ('w, 'z, string list) prom" where
  "transferDestination env destinationPath srcRel sourcePath destRel move missingFiles =
     then_p (join_field env destinationPath destRel) (\<lambda>destPath.
       catch_p
         (then_p (transferFile env sourcePath destPath move) (\<lambda>_. resolve missingFiles))
         (\<lambda>e. case err_code e of
                 Inl thrown \<Rightarrow> reject thrown
               | Inr code \<Rightarrow>
                   if code = Some ''ENOENT'' then resolve (missingFiles @ [srcRel])
                   else if code = Some ''EPERM''
                   then then_p (transferFile env sourcePath destPath False)
                          (\<lambda>_. resolve missingFiles)
                   else reject e))"

text \<open>
  The inner \<^verbatim>\<open>Promise.mapSeries(sourceMap[srcRel], (destRel, idx, len) => ...)\<close>:
  \<open>idx\<close> counts the destinations done, \<open>len\<close> is the length of the whole array.
\<close>

fun transferDestinations ::
  "'w env \<Rightarrow> string \<Rightarrow> string \<Rightarrow> string \<Rightarrow> nat \<Rightarrow> nat \<Rightarrow> string option list \<Rightarrow> string list
     \<Rightarrow> ('w, 'z, string list) prom" where
  "transferDestinations env destinationPath srcRel sourcePath idx len [] missingFiles =
     resolve missingFiles"
| "transferDestinations env destinationPath srcRel sourcePath idx len (destRel # rest) missingFiles =
     then_p (transferDestination env destinationPath srcRel sourcePath destRel
               (int idx = int len - 1) missingFiles)
       (\<lambda>missingFiles'.
          transferDestinations env destinationPath srcRel sourcePath (idx + 1) len rest missingFiles')"

text \<open>The outer \<^verbatim>\<open>Promise.mapSeries(Object.keys(sourceMap), srcRel => ...)\<close>.\<close>

fun transferSources ::
  "'w env \<Rightarrow> string \<Rightarrow> string \<Rightarrow> (string \<times> string option list) list \<Rightarrow> string list
     \<Rightarrow> string list \<Rightarrow> ('w, 'z, string list) prom" where
  "transferSources env tempPath destinationPath sourceMap [] missingFiles = resolve missingFiles"
| "transferSources env tempPath destinationPath sourceMap (srcRel # rest) missingFiles =
     then_p (transferDestinations env destinationPath srcRel (path_join env tempPath srcRel)
               0 (length (group_get sourceMap srcRel)) (group_get sourceMap srcRel) missingFiles)
       (\<lambda>missingFiles'.
          transferSources env tempPath destinationPath sourceMap rest missingFiles')"

definition copySourceMap :: "IInstruction list \<Rightarrow> (string \<times> string option list) list" where
  "copySourceMap copies = group_by (\<lambda>c. js_str (source c)) destination copies"

text \<open>
  The warning of \<^verbatim>\<open>extractArchive\<close>: the translated text names the archive
  (\<^verbatim>\<open>path.basename(archivePath)\<close>), followed by the missing files, one per line. Of
  the fixed text only the first sentence is kept.
\<close>

definition missingFilesWarning :: "'w env \<Rightarrow> string \<Rightarrow> string list \<Rightarrow> event" where
  "missingFilesWarning env archivePath missingFiles =
     ShowErrorNotification ''Invalid installer''
       (''The installer in '' @ dq @ path_basename env archivePath @ dq
        @ '' tried to install files that were not part of the archive.''
        @ [CHR 0x0A, CHR 0x0A]
        @ join_lines [CHR 0x0A] (map (\<lambda>name. ''- '' @ name) missingFiles))
       (Some False)"




text \<open>The chain of \<^verbatim>\<open>extractArchive\<close> up to the end of the two loops.\<close>

definition transferCopies ::
  "'w env \<Rightarrow> string \<Rightarrow> string \<Rightarrow> IInstruction list \<Rightarrow> ('w, 'z, string list) prom" where
  "transferCopies env tempPath destinationPath copies =
     then_p (fs_ensureDir env destinationPath) (\<lambda>_.
     then_p (query (getNormalizeFunc env destinationPath)) (\<lambda>_.
     transferSources env tempPath destinationPath (copySourceMap copies)
       (object_keys (copySourceMap copies)) []))"

definition extractArchive ::
  "'w env \<Rightarrow> string \<Rightarrow> string \<Rightarrow> string \<Rightarrow> IInstruction list \<Rightarrow> ('w, 'z, unit) prom" where
  "extractArchive env archivePath tempPath destinationPath copies =
     then_p (transferCopies env tempPath destinationPath copies) (\<lambda>missingFiles.
       if length missingFiles > 0
       then emit (missingFilesWarning env archivePath missingFiles)
       else resolve ())"

subsection \<open>processInstructions\<close>

text \<open>The chain of stages at the end of \<^verbatim>\<open>processInstructions\<close>.\<close>

definition runStages ::
  "'w env \<Rightarrow> string \<Rightarrow> string \<Rightarrow> string \<Rightarrow> string \<Rightarrow> string \<Rightarrow> InstructionGroups
     \<Rightarrow> ('w, 'z, unit) prom" where
  "runStages env archivePath tempPath destinationPath gameId modId instructionGroups =
     then_p (processMKDir env (g_mkdir instructionGroups) destinationPath) (\<lambda>_.
     then_p (extractArchive env archivePath tempPath destinationPath
               (g_copy instructionGroups)) (\<lambda>_.
     then_p (processGenerateFiles env (g_generatefile instructionGroups) destinationPath) (\<lambda>_.
     then_p (processIniEdits env (g_iniedit instructionGroups) destinationPath) (\<lambda>_.
     then_p (processSubmodule env (g_submodule instructionGroups) destinationPath
               gameId modId) (\<lambda>_.
     then_p (processAttribute env (g_attribute instructionGroups) gameId modId) (\<lambda>_.
     then_p (processSetModType env (g_setmodtype instructionGroups) gameId modId) (\<lambda>_.
     processRule env (g_rule instructionGroups) gameId modId)))))))"

text \<open>
  The notification of the error group. Of the text added when no error is fatal only the
  first sentence is kept (without its apostrophe).
\<close>

definition installerErrorsMessage :: "bool \<Rightarrow> string" where
  "installerErrorsMessage fatal =
     ''Errors were reported processing the installer for '' @ dq @ ''{{ modId }}'' @ dq @ ''. ''
     @ (if fatal then [] else ''It is possible the mod works (partially) anyway. '')
     @ [CHR 0x0A] @ ''{{ errors }}''"

definition installerErrorsNotification :: "bool \<Rightarrow> event" where
  "installerErrorsNotification fatal =
     ShowErrorNotification ''Installer reported errors'' (installerErrorsMessage fatal)
       (Some False)"

definition invalidInstructionsNotification :: "'w IGame \<Rightarrow> event" where
  "invalidInstructionsNotification game =
     ShowErrorNotification ''Invalid mod installer instructions''
       (''Invalid installer instructions found for '' @ dq @ ''{{ modId }}'' @ dq @ ''.'')
       (Some (contributed game = None))"

definition processInstructions ::
  "'w env \<Rightarrow> string \<Rightarrow> string \<Rightarrow> string \<Rightarrow> string \<Rightarrow> string \<Rightarrow> instructions
     \<Rightarrow> ('w, 'z, unit) prom" where
  "processInstructions env archivePath tempPath destinationPath gameId modId result =
     (case result of
        InstrNull \<Rightarrow> reject UserCanceled
      | InstrUndefined \<Rightarrow> reject (ProcessCanceled ''Empty archive or no options selected'' False)
      | InstrList instrs \<Rightarrow>
          if length instrs = 0
          then reject (ProcessCanceled ''Empty archive or no options selected'' False)
          else if length (validateInstructions env instrs) > 0
          then (case getGame env gameId of
                  None \<Rightarrow> reject (TypeError ''Cannot read property contributed of undefined'')
                | Some game \<Rightarrow>
                    then_p (emit (invalidInstructionsNotification game)) (\<lambda>_.
                      reject (ProcessCanceled ''Invalid installer instructions'' False)))
          else
            let instructionGroups = transformInstructions instrs;
                fatal = find (\<lambda>e. ivalue e = Some ''fatal'') (g_error instructionGroups)
            in then_p
                 (if length (g_error instructionGroups) > 0
                  then then_p (emit (installerErrorsNotification (fatal \<noteq> None)))
                         (\<lambda>_. if fatal \<noteq> None
                               then reject (ProcessCanceled ''Installer script failed'' False)
                               else resolve ())
                  else resolve ())
                 (\<lambda>_. then_p (reportUnsupported (g_unsupported instructionGroups) archivePath)
                   (\<lambda>_. runStages env archivePath tempPath destinationPath gameId modId
                           instructionGroups)))"

section \<open>The installer registry\<close>

record ISupportedResult =
  supported :: bool
  requiredFiles :: "string list"

text \<open>
  IModInstaller. The two functions are supplied by extensions and are asynchronous: they
  are operations of the world. \<open>installFunc\<close> is the field \<^verbatim>\<open>install\<close>: files,
  destination path, game, choices, unattended (the progress callback is left out). The
  priority is a number in the source; it is an integer here.
\<close>

record 'w IModInstaller =
  priority :: int
  testSupported :: "string list \<Rightarrow> string \<Rightarrow> 'w \<Rightarrow> (err + ISupportedResult) \<times> 'w"
  installFunc :: "string list \<Rightarrow> string \<Rightarrow> string \<Rightarrow> string option \<Rightarrow> bool option
                    \<Rightarrow> 'w \<Rightarrow> (err + instructions) \<times> 'w"

record 'w ISupportedInstaller =
  installer :: "'w IModInstaller"
  si_requiredFiles :: "string list"

text \<open>
  \<^verbatim>\<open>addInstaller\<close>: push, then \<^verbatim>\<open>Array.prototype.sort\<close> with the comparator
  \<^verbatim>\<open>lhs.priority - rhs.priority\<close>. The sort of the runtime is stable (ECMAScript 2019),
  and a stable sort has one result: the one of \<open>sort_key\<close>.
\<close>

definition addInstaller ::
  "int \<Rightarrow> (string list \<Rightarrow> string \<Rightarrow> 'w \<Rightarrow> (err + ISupportedResult) \<times> 'w)
     \<Rightarrow> (string list \<Rightarrow> string \<Rightarrow> string \<Rightarrow> string option \<Rightarrow> bool option
           \<Rightarrow> 'w \<Rightarrow> (err + instructions) \<times> 'w)
     \<Rightarrow> 'w IModInstaller list \<Rightarrow> 'w IModInstaller list" where
  "addInstaller p ts inst mInstallers =
     sort_key priority
       (mInstallers @ [\<lparr>priority = p, testSupported = ts, installFunc = inst\<rparr>])"

text \<open>The registry after a sequence of registrations, the first registered first.\<close>

definition registerAll :: "'w IModInstaller list \<Rightarrow> 'w IModInstaller list" where
  "registerAll regs =
     foldl (\<lambda>ms r. addInstaller (priority r) (testSupported r) (installFunc r) ms) [] regs"

text \<open>\<^verbatim>\<open>getInstaller(fileList, gameId, offsetIn)\<close>, with \<^verbatim>\<open>offset = offsetIn || 0\<close>.\<close>

function getInstaller ::
  "'w IModInstaller list \<Rightarrow> string list \<Rightarrow> string \<Rightarrow> nat
     \<Rightarrow> ('w, 'z, 'w ISupportedInstaller option) prom" where
  "getInstaller mInstallers fileList gameId offset =
     (if offset \<ge> length mInstallers then resolve None
      else then_p (query (testSupported (mInstallers ! offset) fileList gameId))
             (\<lambda>testResult.
                if supported testResult
                then resolve (Some \<lparr>installer = mInstallers ! offset,
                                    si_requiredFiles = requiredFiles testResult\<rparr>)
                else getInstaller mInstallers fileList gameId (offset + 1)))"
  by pat_completeness auto
termination
  by (relation "measure (\<lambda>(ms, fl, g, offset). length ms - offset)") auto

declare getInstaller.simps [simp del]

text \<open>
  The scan of the specification, in its words: "scan in order; first installer whose
  testSupported returns supported=true wins".
\<close>

fun spec_find ::
  "'w IModInstaller list \<Rightarrow> string list \<Rightarrow> string
     \<Rightarrow> ('w, 'z, 'w ISupportedInstaller option) prom" where
  "spec_find [] fileList gameId = resolve None"
| "spec_find (m # ms) fileList gameId =
     then_p (query (testSupported m fileList gameId))
       (\<lambda>testResult.
          if supported testResult
          then resolve (Some \<lparr>installer = m, si_requiredFiles = requiredFiles testResult\<rparr>)
          else spec_find ms fileList gameId)"


section \<open>The store, the dialogs and the other collaborators\<close>

text \<open>
  IDialogResult: the action the dialog was closed with and the values of its input fields.
\<close>

record IDialogResult =
  action :: string
  input :: "(string \<times> string) list"

text \<open>
  IProfile: \<open>modEnabled p m\<close> is
  \<^verbatim>\<open>getSafe(profile.modState, [m, 'enabled'], false)\<close>.
\<close>

record IProfile =
  profile_id :: string
  profile_gameId :: string
  modEnabled :: "string \<Rightarrow> bool"

text \<open>
  IMod, as far as the install manager reads it: \<open>newestFileId\<close> and \<open>fileId\<close> are the
  attributes of these names (\<open>None\<close>: the attribute is absent), \<open>installerChoices\<close>
  likewise; \<open>mod_attributes\<close> holds the other attributes.
\<close>

record IMod =
  mod_id :: string
  newestFileId :: "int option"
  fileId :: "int option"
  installerChoices :: "string option"
  mod_attributes :: "(string \<times> string) list"
  mod_rules :: "IModRule list option"
  fileOverrides :: "string list option"
  mod_type :: "string option"

text \<open>
  The bag \<^verbatim>\<open>fullInfo\<close>, as far as \<^verbatim>\<open>install\<close> reads and writes it, and the result
  of \<^verbatim>\<open>filterModInfo\<close>, of which only \<^verbatim>\<open>fileId\<close> is read.
\<close>

record info =
  i_download_game :: "string list option"
  i_fileMD5 :: "string option"
  i_size :: "nat option"
  i_meta :: "string option"
  i_choices :: "string option"
  i_variant :: "string option"
  i_previous :: "(string \<times> string) list option"

record IModInfo =
  mi_fileId :: "int option"
  mi_data :: string

text \<open>
  The collaborators of the pipeline, none of them under src/: the archive codec
  (\<^verbatim>\<open>extractFull\<close>, which also asks for the password), \<^verbatim>\<open>walk\<close>,
  \<^verbatim>\<open>makeListInstaller\<close>, the dialogs (the promise of a dialog is resolved with the
  action the user closes it with, never rejected), \<^verbatim>\<open>queryGameId\<close>,
  \<^verbatim>\<open>api.emitAndAwait\<close>, \<^verbatim>\<open>genHash\<close>, \<^verbatim>\<open>api.lookupModMeta\<close>,
  \<^verbatim>\<open>deriveModInstallName\<close>, the mods of a game in the store (in the order of
  \<^verbatim>\<open>Object.keys\<close>; \<open>None\<close>: the game has no entry), the event
  \<^verbatim>\<open>remove-mod\<close> with its callback (\<open>Inr ()\<close>: called with \<^verbatim>\<open>null\<close>),
  \<^verbatim>\<open>filterModInfo\<close>, the install path of a game and the active profile.
\<close>

record 'w api =
  extractFull :: "string \<Rightarrow> string \<Rightarrow> 'w \<Rightarrow> (err + int \<times> string list) \<times> 'w"
  walk :: "string \<Rightarrow> 'w \<Rightarrow> (err + string list) \<times> 'w"
  makeListInstaller :: "string list \<Rightarrow> string \<Rightarrow> 'w
                          \<Rightarrow> (err + 'w ISupportedInstaller option) \<times> 'w"
  showDialog :: "string \<Rightarrow> string list \<Rightarrow> 'w \<Rightarrow> IDialogResult \<times> 'w"
  queryGameId :: "string list \<Rightarrow> string \<Rightarrow> 'w \<Rightarrow> (err + string option) \<times> 'w"
  emitAndAwait :: "string \<Rightarrow> string list \<Rightarrow> 'w \<Rightarrow> (err + unit) \<times> 'w"
  genHash :: "string \<Rightarrow> 'w \<Rightarrow> (err + string \<times> nat) \<times> 'w"
  lookupModMeta :: "string \<Rightarrow> string option \<Rightarrow> nat option \<Rightarrow> string option \<Rightarrow> 'w
                      \<Rightarrow> (err + string list) \<times> 'w"
  deriveInstallName :: "string \<Rightarrow> info \<Rightarrow> string"
  getMods :: "'w \<Rightarrow> string \<Rightarrow> (string \<times> IMod) list option"
  removeMod :: "string \<Rightarrow> string \<Rightarrow> 'w \<Rightarrow> (err + unit) \<times> 'w"
  filterModInfo :: "info \<Rightarrow> string option \<Rightarrow> 'w \<Rightarrow> (err + IModInfo) \<times> 'w"
  installPath :: "string \<Rightarrow> string"
  activeProfile :: "'w \<Rightarrow> IProfile option"

definition show_dialog ::
  "'w api \<Rightarrow> string \<Rightarrow> string list \<Rightarrow> ('w, 'z, IDialogResult) prom" where
  "show_dialog api title labels s =
     (case showDialog api title labels (world s) of
        (r, w') \<Rightarrow> (Inr r, s\<lparr>world := w', trace := trace s @ [ShowDialog title labels]\<rparr>))"

section \<open>installInner and determineModType\<close>

definition isCritical :: "string \<Rightarrow> bool" where
  "isCritical error =
     (contains ''Unexpected end of archive'' error
      \<or> contains ''ERROR: Data Error'' error
      \<or> contains ''Can not open the file as archive'' error)"

definition archiveExtLookup :: "string list" where
  "archiveExtLookup = [''.zip'', ''.z01'', ''.7z'', ''.rar'', ''.r00'', ''.001'', ''.bz2'',
     ''.bzip2'', ''.gz'', ''.gzip'', ''.xz'', ''.z'', ''.lzh'']"

definition toLowerCase :: "string \<Rightarrow> string" where
  "toLowerCase s =
     map (\<lambda>c. if of_char c \<ge> (65::nat) \<and> of_char c \<le> (90::nat)
               then char_of (of_char c + (32::nat)) else c) s"

text \<open>
  \<^verbatim>\<open>queryContinue\<close>: the dialog offers Cancel, and Continue unless an error is terminal.
  It is closed through one of the actions it offers: an answer that is not the offered
  Continue counts as Cancel.
\<close>

definition queryContinue :: "'w api \<Rightarrow> string list \<Rightarrow> ('w, 'z, unit) prom" where
  "queryContinue api errors =
     (let terminal = find (contains ''Can not open the file as archive'') errors
      in then_p (show_dialog api ''Archive damaged''
                   ([''Cancel''] @ (if terminal \<noteq> None then [] else [''Continue''])))
           (\<lambda>result. if action result = ''Continue'' \<and> terminal = None
                      then resolve () else reject UserCanceled))"

text \<open>
  \<^verbatim>\<open>installInner\<close>: extract, recover from a broken archive that is no archive, list the
  files, find the installer, run it. \<open>installContext\<close> tells whether the argument of this
  name is defined; \<open>extractList\<close> is the explicit file list. The error thrown when no
  installer is found is a plain \<^verbatim>\<open>Error\<close>.
\<close>

definition noInstallerError :: err where
  "noInstallerError =
     Error ''no installer supporting this file'' None
       (Some ''Error: no installer supporting this file'')"

text \<open>The chain of \<^verbatim>\<open>installInner\<close> up to the list of the extracted files.\<close>

definition extractAndWalk ::
  "'w env \<Rightarrow> 'w api \<Rightarrow> string \<Rightarrow> string \<Rightarrow> bool \<Rightarrow> ('w, 'z, string list) prom" where
  "extractAndWalk env api archivePath tempPath installContext =
     then_p
       (catch_p
         (then_p
           (catch_p (call (extractFull api archivePath tempPath)
                       (ExtractFull archivePath tempPath))
              (\<lambda>e. case err_message e of
                      Inl thrown \<Rightarrow> reject thrown
                    | Inr None \<Rightarrow> reject (TypeError ''Cannot read property indexOf of undefined'')
                    | Inr (Some m) \<Rightarrow>
                        if isCritical m then reject (ArchiveBrokenError m) else reject e))
           (\<lambda>(code, errors).
              then_p (if installContext then emit SetProgress else resolve ()) (\<lambda>_.
                if code \<noteq> 0
                then (case find isCritical errors of
                        Some critical \<Rightarrow> reject (ArchiveBrokenError critical)
                      | None \<Rightarrow> queryContinue api errors)
                else resolve ())))
         (\<lambda>e. case e of
                 ArchiveBrokenError m \<Rightarrow>
                   if toLowerCase (path_extname env archivePath) \<in> set archiveExtLookup
                   then reject e
                   else then_p (show_dialog api ''Not an archive'' [''Cancel'', ''Create Mod''])
                          (\<lambda>result.
                             if action result = ''Cancel'' then reject UserCanceled
                             else then_p (fs_ensureDir env tempPath) (\<lambda>_.
                                    fs_copy env archivePath
                                      (path_join env tempPath (path_basename env archivePath))))
               | _ \<Rightarrow> reject e))
       (\<lambda>_. query (walk api tempPath))"

definition installInner ::
  "'w env \<Rightarrow> 'w api \<Rightarrow> 'w IModInstaller list \<Rightarrow> string \<Rightarrow> string \<Rightarrow> string \<Rightarrow> string
     \<Rightarrow> bool \<Rightarrow> string option \<Rightarrow> string list option \<Rightarrow> bool option
     \<Rightarrow> ('w, 'z, instructions) prom" where
  "installInner env api mInstallers archivePath tempPath destinationPath gameId installContext
       installChoices extractList unattended =
     then_p (extractAndWalk env api archivePath tempPath installContext) (\<lambda>fileList.
     then_p (case extractList of
               Some l \<Rightarrow> query (makeListInstaller api l tempPath)
             | None \<Rightarrow> getInstaller mInstallers fileList gameId 0)
       (\<lambda>supportedInstaller.
          case supportedInstaller of
            None \<Rightarrow> reject noInstallerError
          | Some si \<Rightarrow>
              call (installFunc (installer si) fileList tempPath gameId installChoices unattended)
                (RunInstaller (priority (installer si)))))"

text \<open>
  \<^verbatim>\<open>determineModType\<close>: the mod types of the game, sorted by descending priority (a
  stable sort), are tested one after the other until one matches; its id, or the empty
  string, is the result.
\<close>

fun testModTypes ::
  "'w IModType list \<Rightarrow> instructions \<Rightarrow> bool \<Rightarrow> ('w, 'z, string option list) prom" where
  "testModTypes [] installInstructions found = resolve []"
| "testModTypes (t # ts) installInstructions found =
     then_p (if found then resolve (None, found)
             else then_p (query (test t installInstructions))
                    (\<lambda>m. if m then resolve (Some (typeId t), True) else resolve (None, found)))
       (\<lambda>(r, found'). then_p (testModTypes ts installInstructions found')
                          (\<lambda>rs. resolve (r # rs)))"

definition determineModType ::
  "'w env \<Rightarrow> string \<Rightarrow> instructions \<Rightarrow> ('w, 'z, string) prom" where
  "determineModType env gameId installInstructions =
     (case getGame env gameId of
        None \<Rightarrow> reject (Error (''Invalid game '' @ dq @ gameId @ dq) None None)
      | Some game \<Rightarrow>
          then_p (testModTypes (sort_key (\<lambda>t. - mt_priority t) (modTypes game))
                    installInstructions False)
            (\<lambda>matches. resolve (case find (\<lambda>m. m \<noteq> None) matches of
                                   Some (Some t) \<Rightarrow> t
                                 | _ \<Rightarrow> [])))"


section \<open>The install pipeline\<close>

subsection \<open>The variables shared by the closures of install\<close>

text \<open>
  The variables that \<^verbatim>\<open>install\<close> declares and its handlers assign and read:
  \<open>l_installContext\<close> tells whether \<^verbatim>\<open>installContext\<close> is defined, \<open>None\<close> is
  \<^verbatim>\<open>undefined\<close>. They extend the state.
\<close>

record 'w ist = "'w st" +
  l_fullInfo :: info
  l_rules :: "IModRule list"
  l_overrides :: "string list option"
  l_destinationPath :: "string option"
  l_tempPath :: "string option"
  l_modId :: string
  l_installGameId :: "string option"
  l_installContext :: bool
  l_enable :: bool
  l_archiveMD5 :: "string option"
  l_archiveSize :: "nat option"

type_synonym ('w, 'a) iprom = "'w ist \<Rightarrow> (err + 'a) \<times> 'w ist"

text \<open>An assignment to the shared variables.\<close>

definition assign :: "('w ist \<Rightarrow> 'w ist) \<Rightarrow> ('w, unit) iprom" where
  "assign f s = (Inr (), f s)"

text \<open>
  A method of the install manager called from \<^verbatim>\<open>install\<close> acts on the world and
  the trace; the variables of \<^verbatim>\<open>install\<close> are out of its reach.
\<close>

definition lift_p :: "('w st \<Rightarrow> (err + 'a) \<times> 'w st) \<Rightarrow> ('w, 'a) iprom" where
  "lift_p p s =
     (case p \<lparr>world = world s, trace = trace s\<rparr> of
        (r, b) \<Rightarrow> (r, s\<lparr>world := world b, trace := trace b\<rparr>))"

text \<open>
  \<open>preserves I p\<close>: whatever the outcome, \<open>p\<close> leaves the property \<open>I\<close> of the state
  intact; \<open>on_variables I\<close>: the property depends on the variables of \<^verbatim>\<open>install\<close>
  only.
\<close>

definition preserves :: "('w ist \<Rightarrow> bool) \<Rightarrow> ('w, 'a) iprom \<Rightarrow> bool" where
  "preserves I p = (\<forall>s. I s \<longrightarrow> I (snd (p s)))"

definition on_variables :: "('w ist \<Rightarrow> bool) \<Rightarrow> bool" where
  "on_variables I = (\<forall>s w t. I (s\<lparr>world := w, trace := t\<rparr>) = I s)"

text \<open>Reading the variables, or the world, at the moment a handler runs.\<close>

definition read_p :: "(('w, 'z) st_scheme \<Rightarrow> 'a) \<Rightarrow> ('w, 'z, 'a) prom" where
  "read_p f s = (Inr (f s), s)"

text \<open>Bluebird's \<^verbatim>\<open>p.tap(h)\<close>: \<open>h\<close> runs on the value of \<open>p\<close>, which is passed on.\<close>

definition tap_p :: "('w, 'z, 'a) prom \<Rightarrow> ('a \<Rightarrow> ('w, 'z, 'b) prom) \<Rightarrow> ('w, 'z, 'a) prom" where
  "tap_p p h = then_p p (\<lambda>x. then_p (h x) (\<lambda>_. resolve x))"

subsection \<open>Name collision and version choice\<close>

definition checkModExists :: "'w api \<Rightarrow> string \<Rightarrow> string \<Rightarrow> 'w \<Rightarrow> bool" where
  "checkModExists api installName gameMode w =
     (case getMods api w gameMode of
        None \<Rightarrow> False
      | Some mods \<Rightarrow> installName \<in> fst ` set mods)"

record IReplaceChoice =
  rc_id :: string
  rc_variant :: "string option"
  rc_enable :: bool
  rc_attributes :: "(string \<times> string) list"

text \<open>
  \<^verbatim>\<open>queryUserReplace\<close>. The dialog is closed through one of its three actions (an
  answer that is none of them counts as Cancel). On Replace the event
  \<^verbatim>\<open>remove-mod\<close> is emitted and its callback awaited. The mod of this name is in
  the store when the dialog is shown, its title is not modelled.
\<close>

definition queryUserReplace ::
  "'w api \<Rightarrow> string \<Rightarrow> string \<Rightarrow> ('w, 'z, IReplaceChoice) prom" where
  "queryUserReplace api modId gameId =
     then_p (read_p (\<lambda>s. case getMods api (world s) gameId of
                             None \<Rightarrow> None
                           | Some mods \<Rightarrow> map_of mods modId))
       (\<lambda>cur.
     then_p (show_dialog api ''This mod seems to be installed already''
               [''Cancel'', ''Add Variant'', ''Replace''])
       (\<lambda>result.
          if action result = ''Cancel'' then reject UserCanceled
          else if action result = ''Add Variant''
          then resolve \<lparr>rc_id = modId @ ''+'' @ js_str (map_of (input result) ''variant''),
                        rc_variant = map_of (input result) ''variant'',
                        rc_enable = False, rc_attributes = []\<rparr>
          else if action result = ''Replace''
          then then_p (read_p (\<lambda>s. case activeProfile api (world s) of
                                       None \<Rightarrow> False
                                     | Some cp \<Rightarrow>
                                         profile_gameId cp = gameId \<and> modEnabled cp modId))
                 (\<lambda>wasEnabled.
               then_p (call (removeMod api gameId modId)
                         (\<lambda>r. EmitEvent ''remove-mod'' [gameId, modId]))
                 (\<lambda>_. resolve \<lparr>rc_id = modId, rc_variant = Some [],
                                rc_enable = wasEnabled,
                                rc_attributes =
                                  (case cur of
                                     None \<Rightarrow> []
                                   | Some m \<Rightarrow>
                                       filter (\<lambda>(k, v). k \<notin> {''version'', ''fileName'',
                                                               ''fileVersion''})
                                         (mod_attributes m))\<rparr>))
          else reject UserCanceled))"

text \<open>
  \<^verbatim>\<open>checkNameLoop\<close>: while the name is taken the user is asked. The loop ends when
  the user cancels, or names a variant that is free, or replaces the mod; nothing bounds
  the number of rounds, so the loop is partial (\<open>None\<close>: it does not end).
\<close>

partial_function (option) checkNameLoop ::
  "'w api \<Rightarrow> string \<Rightarrow> string \<Rightarrow> string \<Rightarrow> 'w ist \<Rightarrow> ((err + string) \<times> 'w ist) option" where
  "checkNameLoop api modId gameId testModId s =
     (if checkModExists api testModId gameId (world s)
      then (case queryUserReplace api modId gameId s of
              (Inl e, s') \<Rightarrow> Some (Inl e, s')
            | (Inr choice, s') \<Rightarrow>
                checkNameLoop api modId gameId (rc_id choice)
                  (s'\<lparr>l_enable := (if rc_enable choice then True else l_enable s'),
                       l_fullInfo := (l_fullInfo s')\<lparr>i_variant := rc_variant choice,
                                        i_previous := Some (rc_attributes choice)\<rparr>\<rparr>))
      else Some (Inr testModId, s))"

declare checkNameLoop.simps [code]

text \<open>
  \<^verbatim>\<open>findPreviousVersionMod\<close>: the last mod (in the order of \<^verbatim>\<open>Object.keys\<close>) whose
  attribute \<^verbatim>\<open>newestFileId\<close> is the given file id and differs from its attribute
  \<^verbatim>\<open>fileId\<close>.
\<close>

definition findPreviousVersionMod :: "int \<Rightarrow> (string \<times> IMod) list option \<Rightarrow> IMod option" where
  "findPreviousVersionMod fid mods =
     foldl (\<lambda>found (k, m).
              if newestFileId m \<noteq> fileId m \<and> newestFileId m = Some fid then Some m else found)
       None (case mods of None \<Rightarrow> [] | Some ms \<Rightarrow> ms)"


definition userVersionChoice :: "'w api \<Rightarrow> IMod \<Rightarrow> ('w, 'z, string) prom" where
  "userVersionChoice api oldMod =
     then_p (show_dialog api ''An older version of this mod is already installed.''
               [''Cancel'', ''Replace'', ''Install''])
       (\<lambda>result. if action result = ''Cancel'' then reject UserCanceled
                  else resolve (action result))"

text \<open>
  The handler of \<^verbatim>\<open>install\<close> that looks for a prior version
  (\<^verbatim>\<open>.then(modInfo => ...)\<close>, after the first \<^verbatim>\<open>filterModInfo\<close>). On Install the
  action \<^verbatim>\<open>setModEnabled\<close> is created but not dispatched.
\<close>

definition versionChoice ::
  "'w api \<Rightarrow> IProfile option \<Rightarrow> string \<Rightarrow> IModInfo \<Rightarrow> ('w, unit) iprom" where
  "versionChoice api currentProfile gameId modInfo =
     then_p (read_p (\<lambda>s. case mi_fileId modInfo of
                             Some fid \<Rightarrow> findPreviousVersionMod fid (getMods api (world s) gameId)
                           | None \<Rightarrow> None))
       (\<lambda>oldMod.
     then_p (assign (\<lambda>s. case oldMod of
                            Some om \<Rightarrow>
                              if i_choices (l_fullInfo s) = None
                              then s\<lparr>l_fullInfo := (l_fullInfo s)\<lparr>i_choices := installerChoices om\<rparr>\<rparr>
                              else s
                          | None \<Rightarrow> s))
       (\<lambda>_. case (oldMod, currentProfile) of
               (Some om, Some cp) \<Rightarrow>
                 let wasEnabled = modEnabled cp (mod_id om) in
                 then_p (userVersionChoice api om)
                   (\<lambda>act.
                      if act = ''Install''
                      then then_p (assign (\<lambda>s. s\<lparr>l_enable := (l_enable s \<or> wasEnabled)\<rparr>))
                             (\<lambda>_. if wasEnabled
                                   then emit (EmitEvent ''mods-enabled''
                                                [mod_id om, ''false'', profile_gameId cp])
                                   else resolve ())
                      else if act = ''Replace''
                      then then_p (assign (\<lambda>s. s\<lparr>l_rules := (case mod_rules om of
                                                                  None \<Rightarrow> [] | Some rs \<Rightarrow> rs),
                                                    l_overrides := fileOverrides om\<rparr>))
                             (\<lambda>_. then_p (call (removeMod api (profile_gameId cp) (mod_id om))
                                             (\<lambda>r. EmitEvent ''remove-mod''
                                                     [profile_gameId cp, mod_id om]))
                                     (\<lambda>_. assign (\<lambda>s. s\<lparr>l_modId := mod_id om,
                                                          l_enable := (l_enable s \<or> wasEnabled)\<rparr>)))
                      else resolve ())
             | _ \<Rightarrow> resolve ()))"

subsection \<open>The chain of install up to the instructions\<close>

definition init_locals :: "info \<Rightarrow> bool \<Rightarrow> string \<Rightarrow> 'w \<Rightarrow> 'w ist" where
  "init_locals info' enable baseName w =
     \<lparr>world = w, trace = [], l_fullInfo = info', l_rules = [], l_overrides = Some [],
      l_destinationPath = None, l_tempPath = None, l_modId = baseName,
      l_installGameId = None, l_installContext = False, l_enable = enable,
      l_archiveMD5 = None, l_archiveSize = None\<rparr>"

text \<open>
  From the start of the chain to the answer of \<^verbatim>\<open>api.lookupModMeta\<close>: the game is
  chosen, \<^verbatim>\<open>will-install-mod\<close> is emitted and awaited, the archive is hashed (a
  failure of which is ignored), the install context is created. The result is the game
  and the meta information found.
\<close>

definition startInstall ::
  "'w api \<Rightarrow> IProfile option \<Rightarrow> string \<Rightarrow> string \<Rightarrow> string \<Rightarrow> string list \<Rightarrow> string option
     \<Rightarrow> ('w, string \<times> string list) iprom" where
  "startInstall api currentProfile archiveId archivePath baseName downloadGameIds forceGameId =
     then_p
       (tap_p
         (tap_p
           (case forceGameId of
              Some g \<Rightarrow> resolve (Some g)
            | None \<Rightarrow> then_p (read_p l_modId)
                        (\<lambda>modId. query (queryGameId api downloadGameIds modId)))
           (\<lambda>_. case currentProfile of
                   None \<Rightarrow> reject (TypeError ''Cannot read property gameId of undefined'')
                 | Some cp \<Rightarrow>
                     then_p (read_p l_modId)
                       (\<lambda>modId. call (emitAndAwait api ''will-install-mod''
                                       [profile_gameId cp, archiveId, modId])
                                 (\<lambda>r. EmitEvent ''will-install-mod''
                                         [profile_gameId cp, archiveId, modId]))))
         (\<lambda>_. catch_p
                 (then_p (query (genHash api archivePath))
                    (\<lambda>(md5sum, numBytes).
                       assign (\<lambda>s. s\<lparr>l_archiveMD5 := Some md5sum,
                                       l_archiveSize := Some numBytes,
                                       l_fullInfo := (l_fullInfo s)\<lparr>i_fileMD5 := Some md5sum,
                                                        i_size := Some numBytes\<rparr>\<rparr>)))
                 (\<lambda>_. resolve ())))
       (\<lambda>gameId.
          then_p (assign (\<lambda>s. s\<lparr>l_installGameId := gameId\<rparr>))
            (\<lambda>_. case gameId of
                    None \<Rightarrow>
                      reject (ProcessCanceled
                                ''You need to select a game before installing this mod'' False)
                  | Some g \<Rightarrow>
                      then_p (assign (\<lambda>s. s\<lparr>l_installContext := True\<rparr>)) (\<lambda>_.
                      then_p (emit (StartIndicator baseName)) (\<lambda>_.
                      then_p (read_p (\<lambda>s. (l_archiveMD5 s, l_archiveSize s,
                                           i_download_game (l_fullInfo s))))
                        (\<lambda>(archiveMD5, archiveSize, dlGame).
                      then_p (query (lookupModMeta api archivePath archiveMD5 archiveSize
                                       (case dlGame of
                                          None \<Rightarrow> Some g
                                        | Some [] \<Rightarrow> None
                                        | Some (d # _) \<Rightarrow> Some d)))
                        (\<lambda>modInfo. resolve (g, modInfo)))))))"

text \<open>The assignments before \<^verbatim>\<open>checkNameLoop\<close> is entered.\<close>

definition nameMod :: "'w api \<Rightarrow> string \<Rightarrow> string list \<Rightarrow> 'w ist \<Rightarrow> 'w ist" where
  "nameMod api baseName modInfo s =
     (let fullInfo = (if length modInfo > 0
                      then (l_fullInfo s)\<lparr>i_meta := Some (hd modInfo)\<rparr>
                      else l_fullInfo s)
      in s\<lparr>l_fullInfo := fullInfo, l_modId := deriveInstallName api baseName fullInfo\<rparr>)"

text \<open>
  From the name found by \<^verbatim>\<open>checkNameLoop\<close> to the end of
  \<^verbatim>\<open>processInstructions\<close>.
\<close>

definition modHasNoType :: "'w api \<Rightarrow> string \<Rightarrow> string \<Rightarrow> 'w \<Rightarrow> bool" where
  "modHasNoType api gameId modId w =
     (case getMods api w gameId of
        None \<Rightarrow> True
      | Some mods \<Rightarrow>
          (case map_of mods modId of
             None \<Rightarrow> True
           | Some m \<Rightarrow> mod_type m = None \<or> mod_type m = Some []))"

definition installMod ::
  "'w env \<Rightarrow> 'w api \<Rightarrow> 'w IModInstaller list \<Rightarrow> IProfile option \<Rightarrow> string \<Rightarrow> string \<Rightarrow> string
     \<Rightarrow> string list option \<Rightarrow> bool option \<Rightarrow> string \<Rightarrow> ('w, unit) iprom" where
  "installMod env api mInstallers currentProfile archiveId archivePath gameId fileList unattended
       newModId =
     then_p (assign (\<lambda>s. s\<lparr>l_modId := newModId\<rparr>)) (\<lambda>_.
     then_p (then_p (read_p l_fullInfo) (\<lambda>fullInfo. query (filterModInfo api fullInfo None)))
       (\<lambda>modInfo.
     then_p (versionChoice api currentProfile gameId modInfo) (\<lambda>_.
     then_p (read_p l_modId) (\<lambda>modId.
       let destinationPath = path_join env (installPath api gameId) modId;
           tempPath = destinationPath @ ''.installing''
       in then_p (emit (StartInstall modId gameId (Some archiveId))) (\<lambda>_.
          then_p (assign (\<lambda>s. s\<lparr>l_destinationPath := Some destinationPath\<rparr>)) (\<lambda>_.
          then_p (emit (SetInstallPath modId destinationPath)) (\<lambda>_.
          then_p (assign (\<lambda>s. s\<lparr>l_tempPath := Some tempPath\<rparr>)) (\<lambda>_.
          then_p (then_p (read_p (\<lambda>s. i_choices (l_fullInfo s)))
                    (\<lambda>choices. lift_p (installInner env api mInstallers archivePath tempPath
                                         destinationPath gameId True choices fileList
                                         unattended)))
            (\<lambda>result.
          then_p (then_p (read_p (\<lambda>s. modHasNoType api gameId modId (world s)))
                    (\<lambda>untyped. if untyped
                                then then_p (lift_p (determineModType env gameId result))
                                       (\<lambda>t. emit (SetModTypeCtx modId t))
                                else resolve ()))
            (\<lambda>_. lift_p (processInstructions env archivePath tempPath destinationPath gameId
                            modId result)))))))))))"

text \<open>
  The chain up to the first \<^verbatim>\<open>.finally\<close>. The base name is the file name of the
  archive without its extension; the notification dismissed first and the log lines are
  left out. \<open>None\<close>: the chain does not settle, because the name dialog goes on for ever.
\<close>

definition archiveBaseName :: "'w env \<Rightarrow> string \<Rightarrow> string" where
  "archiveBaseName env archivePath =
     take (length (path_basename env archivePath) - length (path_extname env archivePath))
       (path_basename env archivePath)"

definition installChain ::
  "'w env \<Rightarrow> 'w api \<Rightarrow> 'w IModInstaller list \<Rightarrow> string \<Rightarrow> string \<Rightarrow> string list \<Rightarrow> info
     \<Rightarrow> bool \<Rightarrow> string option \<Rightarrow> string list option \<Rightarrow> bool option \<Rightarrow> 'w
     \<Rightarrow> ((err + unit) \<times> 'w ist) option" where
  "installChain env api mInstallers archiveId archivePath downloadGameIds info' enable
       forceGameId fileList unattended w =
     (let baseName = archiveBaseName env archivePath;
          currentProfile = activeProfile api w
      in case startInstall api currentProfile archiveId archivePath baseName downloadGameIds
                forceGameId (init_locals info' enable baseName w) of
           (Inl e, s1) \<Rightarrow> Some (Inl e, s1)
         | (Inr (gameId, modInfo), s1) \<Rightarrow>
             (let s2 = nameMod api baseName modInfo s1
              in case checkNameLoop api (l_modId s2) gameId (l_modId s2) s2 of
                   None \<Rightarrow> None
                 | Some (Inl e, s3) \<Rightarrow> Some (Inl e, s3)
                 | Some (Inr newModId, s3) \<Rightarrow>
                     Some (installMod env api mInstallers currentProfile archiveId archivePath
                             gameId fileList unattended newModId s3)))"

subsection \<open>How install settles\<close>

text \<open>A promise that has settled with the outcome \<open>r\<close>.\<close>

definition settled :: "err + 'a \<Rightarrow> ('w, 'z, 'a) prom" where
  "settled r s = (r, s)"

text \<open>
  The events that tell the outcome of the pipeline: \<^verbatim>\<open>finishInstallCB\<close>, the
  callback of \<^verbatim>\<open>install\<close> and \<^verbatim>\<open>stopIndicator\<close>.
\<close>

fun reports_outcome :: "event \<Rightarrow> bool" where
  "reports_outcome (FinishInstall v) = True"
| "reports_outcome (Callback e m) = True"
| "reports_outcome StopIndicator = True"
| "reports_outcome ev = False"

text \<open>The first \<^verbatim>\<open>.finally\<close>: the staging directory is removed, if it has a name.\<close>

definition removeStaging :: "'w env \<Rightarrow> ('w, unit) iprom" where
  "removeStaging env =
     then_p (read_p l_tempPath)
       (\<lambda>tempPath. case tempPath of
                      Some t \<Rightarrow> fs_remove env t
                    | None \<Rightarrow> resolve ())"

text \<open>
  The handler of the resolved chain. \<^verbatim>\<open>installGameId\<close> is defined whenever it runs.
\<close>

definition finishSuccess ::
  "'w env \<Rightarrow> IProfile option \<Rightarrow> string \<Rightarrow> bool \<Rightarrow> IModInfo \<Rightarrow> ('w, unit) iprom" where
  "finishSuccess env currentProfile archiveId callback modInfo =
     then_p (read_p (\<lambda>s. (js_str (l_installGameId s), l_modId s, l_rules s, l_overrides s,
                           l_enable s)))
       (\<lambda>(installGameId, modId, rules, overrides, enable).
     then_p (emit (FinishInstall ''success'')) (\<lambda>_.
     then_p (each_p (\<lambda>rule. store_dispatch env (AddModRule installGameId modId (Some rule)))
               rules) (\<lambda>_.
     then_p (store_dispatch env (SetFileOverride installGameId modId overrides)) (\<lambda>_.
     then_p (case currentProfile of
               Some cp \<Rightarrow>
                 if enable
                 then then_p (store_dispatch env (SetModEnabled (profile_id cp) modId True))
                        (\<lambda>_. emit (EmitEvent ''mods-enabled''
                                      [modId, ''true'', profile_gameId cp]))
                 else resolve ()
             | None \<Rightarrow> resolve ()) (\<lambda>_.
     then_p (if callback then emit (Callback None (Some modId)) else resolve ()) (\<lambda>_.
     case currentProfile of
       None \<Rightarrow> reject (TypeError ''Cannot read property gameId of undefined'')
     | Some cp \<Rightarrow> emit (EmitEvent ''did-install-mod''
                          [profile_gameId cp, archiveId, modId])))))))"

text \<open>
  The classification of the catch handler. Reading \<^verbatim>\<open>err.message\<close> throws when the
  chain was rejected with \<^verbatim>\<open>undefined\<close>. Only a plain error can have a stack that
  starts with the text of a UserCanceled of another module.
\<close>

definition stackSaysCanceled :: "err \<Rightarrow> bool" where
  "stackSaysCanceled e =
     (case e of
        Error m c (Some stk) \<Rightarrow>
          take (length ''UserCanceled: canceled by user'') stk = ''UserCanceled: canceled by user''
      | _ \<Rightarrow> False)"

definition isCanceled :: "err \<Rightarrow> err + bool" where
  "isCanceled e =
     (case e of
        UserCanceled \<Rightarrow> Inr True
      | TemporaryError m \<Rightarrow> Inr True
      | ProcessCanceled m r \<Rightarrow> Inr True
      | ErrNull \<Rightarrow> Inr True
      | _ \<Rightarrow> (case err_message e of
                Inl thrown \<Rightarrow> Inl thrown
              | Inr m \<Rightarrow> Inr (m = Some ''Canceled'' \<or> stackSaysCanceled e)))"

definition cleanupFailedMessage :: string where
  "cleanupFailedMessage =
     ''Failed to clean up installation directory '' @ dq @ ''{{destinationPath}}'' @ dq
       @ '', please close Vortex and remove it manually.''"

text \<open>
  The removal of the destination directory in the catch handler: a UserCanceled is
  swallowed, any other failure is reported through the install context.
\<close>

definition cleanupDestination :: "'w env \<Rightarrow> ('w, unit) iprom" where
  "cleanupDestination env =
     then_p (read_p (\<lambda>s. (l_destinationPath s, l_installContext s)))
       (\<lambda>(destinationPath, installContext).
          case destinationPath of
            Some d \<Rightarrow>
              catch_p
                (catch_p (fs_remove env d)
                   (\<lambda>e. if e = UserCanceled then resolve () else reject e))
                (\<lambda>innerErr.
                   if installContext
                   then (case err_code innerErr of
                           Inl thrown \<Rightarrow> reject thrown
                         | Inr c \<Rightarrow> emit (ReportError cleanupFailedMessage
                                            (Some (c \<noteq> Some ''ENOTEMPTY''))))
                   else reject (TypeError ''Cannot read property reportError of undefined''))
          | None \<Rightarrow> resolve ())"

definition isBrowserAssistantError :: "'w env \<Rightarrow> string option \<Rightarrow> err + bool" where
  "isBrowserAssistantError env error =
     (if win32 env
      then (case error of
              None \<Rightarrow> Inl (TypeError ''Cannot read property indexOf of undefined'')
            | Some m \<Rightarrow> Inr (contains (''Roaming'' @ [CHR 0x5C] @ ''Browser Assistant'') m))
      else Inr False)"

text \<open>
  The catch handler of \<^verbatim>\<open>install\<close>. \<^verbatim>\<open>prettifyNodeErrorMessage\<close> and the texts
  of the reports are not modelled.
\<close>

definition errorMessage :: "err \<Rightarrow> string option" where
  "errorMessage e =
     (case e of
        ErrString m \<Rightarrow> Some m
      | _ \<Rightarrow> (case err_message e of Inl thrown \<Rightarrow> None | Inr m \<Rightarrow> m))"

definition installFailed ::
  "'w env \<Rightarrow> 'w api \<Rightarrow> string \<Rightarrow> bool \<Rightarrow> err \<Rightarrow> ('w, unit) iprom" where
  "installFailed env api archivePath callback e =
     (case isCanceled e of
        Inl thrown \<Rightarrow> reject thrown
      | Inr canceled \<Rightarrow>
          then_p (read_p (\<lambda>s. (l_installContext s, l_modId s)))
            (\<lambda>(installContext, modId).
               let prom = (if installContext
                           then then_p (cleanupDestination env)
                                  (\<lambda>_. emit (FinishInstall
                                                (if canceled then ''canceled'' else ''failed'')))
                           else cleanupDestination env)
               in if e = ErrUndefined
                  then then_p prom
                         (\<lambda>_. if callback
                               then emit (Callback (Some (Error ''unknown error'' None None)) None)
                               else resolve ())
                  else if canceled
                  then then_p prom
                         (\<lambda>_. if callback then emit (Callback (Some e) None) else resolve ())
                  else if (case e of
                             ArchiveBrokenError m \<Rightarrow> True
                           | SetupError m \<Rightarrow> True
                           | DataInvalid m \<Rightarrow> True
                           | _ \<Rightarrow> False)
                  then then_p prom
                         (\<lambda>_. if installContext
                               then emit (ReportError ''Installation failed'' (Some False))
                               else resolve ())
                  else then_p prom (\<lambda>_.
                       then_p (catch_p (then_p (query (genHash api archivePath))
                                          (\<lambda>_. resolve ()))
                                 (\<lambda>_. resolve ())) (\<lambda>_.
                       then_p (if installContext
                               then (case isBrowserAssistantError env (errorMessage e) of
                                       Inl thrown \<Rightarrow> reject thrown
                                     | Inr b \<Rightarrow>
                                         emit (ReportError ''Installation failed''
                                                 (if b then Some False else None)))
                               else resolve ()) (\<lambda>_.
                       if callback then emit (Callback (Some e) (Some modId))
                       else resolve ())))))"

text \<open>The last \<^verbatim>\<open>.finally\<close>.\<close>

definition stopIndicator :: "('w, unit) iprom" where
  "stopIndicator =
     then_p (read_p l_installContext)
       (\<lambda>installContext. if installContext then emit StopIndicator else resolve ())"

text \<open>
  What follows a chain that has settled with \<open>r\<close>: up to the handler of success
  (\<open>installBody\<close>), and with the catch handler and the last \<^verbatim>\<open>.finally\<close>
  (\<open>installSettle\<close>).
\<close>

definition installBody ::
  "'w env \<Rightarrow> 'w api \<Rightarrow> IProfile option \<Rightarrow> string \<Rightarrow> bool \<Rightarrow> err + unit \<Rightarrow> ('w, unit) iprom" where
  "installBody env api currentProfile archiveId callback r =
     then_p
       (then_p (finally_p (settled r) (removeStaging env))
          (\<lambda>_. then_p (read_p (\<lambda>s. (l_fullInfo s, l_destinationPath s)))
                  (\<lambda>(fullInfo, destinationPath).
                     query (filterModInfo api fullInfo destinationPath))))
       (finishSuccess env currentProfile archiveId callback)"

definition installSettle ::
  "'w env \<Rightarrow> 'w api \<Rightarrow> IProfile option \<Rightarrow> string \<Rightarrow> string \<Rightarrow> bool \<Rightarrow> err + unit
     \<Rightarrow> ('w, unit) iprom" where
  "installSettle env api currentProfile archiveId archivePath callback r =
     finally_p
       (catch_p (installBody env api currentProfile archiveId callback r)
          (installFailed env api archivePath callback))
       stopIndicator"

text \<open>
  \<^verbatim>\<open>install\<close>, run on a queue that is idle. \<open>callback\<close> tells whether the argument of
  this name is defined; \<open>processDependencies\<close> is not read by the code.
\<close>

definition install ::
  "'w env \<Rightarrow> 'w api \<Rightarrow> 'w IModInstaller list \<Rightarrow> string \<Rightarrow> string \<Rightarrow> string list \<Rightarrow> info
     \<Rightarrow> bool \<Rightarrow> bool \<Rightarrow> bool \<Rightarrow> string option \<Rightarrow> string list option \<Rightarrow> bool option \<Rightarrow> 'w
     \<Rightarrow> ((err + unit) \<times> 'w ist) option" where
  "install env api mInstallers archiveId archivePath downloadGameIds info' processDependencies
       enable callback forceGameId fileList unattended w =
     (case installChain env api mInstallers archiveId archivePath downloadGameIds info' enable
             forceGameId fileList unattended w of
        None \<Rightarrow> None
      | Some (r, s) \<Rightarrow>
          Some (installSettle env api (activeProfile api w) archiveId archivePath callback r s))"


section \<open>Installing dependencies\<close>

text \<open>
  IModInfoEx (the value of a lookup result), as far as it is read: \<open>details_modId\<close> and
  \<open>details_fileId\<close> are \<^verbatim>\<open>details.modId\<close> and \<^verbatim>\<open>details.fileId\<close>.
\<close>

record IModInfoEx =
  sourceURI :: "string option"
  li_gameId :: "string option"
  li_source :: "string option"
  li_domainName :: "string option"
  details_modId :: "string option"
  details_fileId :: "string option"

text \<open>\<^verbatim>\<open>dep.download\<close>: absent, \<^verbatim>\<open>null\<close>, or the id of a download.\<close>

datatype download_ref = DlUndefined | DlNull | DlId string

record IDependency =
  dep_reference :: IModReference
  lookupResults :: "IModInfoEx list"
  download :: download_ref
  dep_mod :: "IMod option"
  dep_installerChoices :: "string option"
  dep_fileList :: "string list option"
  extra_type :: "string option"
  extra_name :: "string option"
  has_extra :: bool

text \<open>
  The collaborators of the dependency installer: the download manager behind the events
  \<^verbatim>\<open>start-download\<close> (\<open>None\<close>: nobody listens, \<^verbatim>\<open>emit\<close> returns false; otherwise
  the arguments of the callback, an id that may be \<^verbatim>\<open>undefined\<close>),
  \<^verbatim>\<open>start-download-update\<close> (the ids, which may be \<^verbatim>\<open>undefined\<close> as a whole or
  one by one) and \<^verbatim>\<open>resume-download\<close>; \<^verbatim>\<open>semver.validRange\<close>; the download with
  a given id in the store (the path of its archive, and its state); the run of \<^verbatim>\<open>this.install\<close> for a dependency as
  \<^verbatim>\<open>installModAsync\<close> sees it through its callback (download id, archive path,
  choices, file list); \<^verbatim>\<open>isFuzzyVersion\<close>, \<^verbatim>\<open>referenceEqual\<close> and the rules of a mod
  in the store.
\<close>

record 'w dlapi =
  startDownload :: "string option \<Rightarrow> 'w \<Rightarrow> (err + string option) option \<times> 'w"
  startDownloadUpdate :: "string option \<Rightarrow> string option \<Rightarrow> string option \<Rightarrow> string option
                            \<Rightarrow> string \<Rightarrow> 'w \<Rightarrow> (err + string option list option) \<times> 'w"
  resumeDownload :: "string \<Rightarrow> 'w \<Rightarrow> (err + unit) \<times> 'w"
  validRange :: "string \<Rightarrow> string option"
  getDownload :: "'w \<Rightarrow> string \<Rightarrow> string option"
  downloadState :: "'w \<Rightarrow> string \<Rightarrow> string option"
  installArchive :: "string \<Rightarrow> string option \<Rightarrow> string list option \<Rightarrow> 'w
                       \<Rightarrow> (err + string) \<times> 'w"
  isFuzzyVersion :: "string option \<Rightarrow> bool"
  referenceEqual :: "IModReference \<Rightarrow> IModReference \<Rightarrow> bool"
  getRules :: "'w \<Rightarrow> string \<Rightarrow> string \<Rightarrow> IModRule list"

text \<open>\<^verbatim>\<open>downloadURL\<close>: the event \<^verbatim>\<open>start-download\<close> with the source URI.\<close>

definition downloadURL :: "'w dlapi \<Rightarrow> IModInfoEx \<Rightarrow> ('w, 'z, string option) prom" where
  "downloadURL dl lookupResult s =
     (case startDownload dl (sourceURI lookupResult) (world s) of
        (r, w') \<Rightarrow>
          (case r of
             None \<Rightarrow> Inl (Error ''download manager not installed?'' None None)
           | Some (Inl e) \<Rightarrow> Inl e
           | Some (Inr dlId) \<Rightarrow> Inr dlId,
           s\<lparr>world := w',
             trace := trace s @ [EmitEvent ''start-download'' [js_str (sourceURI lookupResult)]]\<rparr>))"

text \<open>\<^verbatim>\<open>truthy(dlIds[0])\<close>.\<close>

definition first_truthy :: "string option list \<Rightarrow> string option" where
  "first_truthy dlIds =
     (case dlIds of Some d # _ \<Rightarrow> (if d \<noteq> [] then Some d else None) | _ \<Rightarrow> None)"

definition downloadMatching ::
  "'w dlapi \<Rightarrow> IModInfoEx \<Rightarrow> string \<Rightarrow> ('w, 'z, string option) prom" where
  "downloadMatching dl lookupResult pattern =
     (if details_modId lookupResult = None \<and> details_fileId lookupResult = None
      then downloadURL dl lookupResult
      else then_p
             (call (startDownloadUpdate dl (li_source lookupResult)
                      (case li_domainName lookupResult of
                         None \<Rightarrow> li_gameId lookupResult
                       | Some d \<Rightarrow> if d = [] then li_gameId lookupResult else Some d)
                      (details_modId lookupResult) (details_fileId lookupResult) pattern)
                (\<lambda>r. EmitEvent ''start-download-update''
                        [js_str (details_modId lookupResult),
                         js_str (details_fileId lookupResult), pattern]))
             (\<lambda>dlIds. case dlIds of
                         None \<Rightarrow> reject (NotFound (''source not supported '' @ dq
                                           @ js_str (li_source lookupResult) @ dq))
                       | Some ids \<Rightarrow>
                           (case first_truthy ids of
                              None \<Rightarrow> reject (ProcessCanceled ''Download failed'' True)
                            | Some d \<Rightarrow> resolve (Some d))))"

text \<open>
  \<^verbatim>\<open>isNaN(parseInt(c, 16))\<close> for the first character of a string: \<^verbatim>\<open>parseInt\<close> of
  one character is a number exactly when the character is a hexadecimal digit (of the
  empty string there is no first character, and \<^verbatim>\<open>parseInt(undefined, 16)\<close> is NaN).
\<close>

definition is_hex_digit :: "char \<Rightarrow> bool" where
  "is_hex_digit c = (c \<in> set ''0123456789abcdefABCDEF'')"

definition first_not_hex :: "string \<Rightarrow> bool" where
  "first_not_hex v = (case v of [] \<Rightarrow> True | c # _ \<Rightarrow> \<not> is_hex_digit c)"

definition downloadModAsync ::
  "'w dlapi \<Rightarrow> IModReference \<Rightarrow> IModInfoEx \<Rightarrow> ('w, 'z, string option) prom" where
  "downloadModAsync dl requirement lookupResult =
     (case versionMatch requirement of
        Some vm \<Rightarrow>
          if first_not_hex vm \<or> validRange dl vm \<noteq> Some vm
          then then_p (downloadMatching dl lookupResult vm)
                 (\<lambda>res. if res = None then downloadURL dl lookupResult else resolve res)
          else downloadURL dl lookupResult
      | None \<Rightarrow> downloadURL dl lookupResult)"


text \<open>
  \<^verbatim>\<open>installModAsync\<close>: the download is looked up in the store, and the archive is
  installed through \<^verbatim>\<open>this.install\<close>, unattended.
\<close>

definition installModAsync ::
  "'w dlapi \<Rightarrow> string option \<Rightarrow> string option \<Rightarrow> string list option \<Rightarrow> ('w, 'z, string) prom" where
  "installModAsync dl downloadId choices fileList s =
     (case (case downloadId of None \<Rightarrow> None | Some i \<Rightarrow> getDownload dl (world s) i) of
        None \<Rightarrow> reject (Error (''Invalid download id ('' @ js_str downloadId @ '')'') None None) s
      | Some archivePath \<Rightarrow>
          call (installArchive dl (js_str downloadId) choices fileList)
            (InstallMod (js_str downloadId)) s)"

definition applyExtraFromRule ::
  "'w env \<Rightarrow> IProfile \<Rightarrow> string \<Rightarrow> IDependency \<Rightarrow> ('w, 'z, unit) prom" where
  "applyExtraFromRule env profile modId dep =
     (if \<not> has_extra dep then resolve ()
      else then_p (case extra_type dep of
                     None \<Rightarrow> resolve ()
                   | Some t \<Rightarrow> store_dispatch env (SetModType (profile_gameId profile) modId (Some t)))
             (\<lambda>_. case extra_name dep of
                     None \<Rightarrow> resolve ()
                   | Some n \<Rightarrow>
                       store_dispatch env
                         (SetModAttribute (profile_gameId profile) modId
                            (Some ''customFileName'') (Some n))))"

text \<open>
  The synchronous part of the callback that \<^verbatim>\<open>doInstallDependencies\<close> maps over the
  dependencies: it chooses \<^verbatim>\<open>dlPromise\<close>. Reading the state of a download that the
  store does not hold throws (\<open>Inl\<close>). \<open>downloads\<close> are the states of the downloads,
  read once when \<^verbatim>\<open>doInstallDependencies\<close> starts.
\<close>

definition noSourceURI :: "IDependency \<Rightarrow> bool" where
  "noSourceURI dep =
     (case lookupResults dep of
        [] \<Rightarrow> True
      | lr # _ \<Rightarrow> sourceURI lr = None \<or> sourceURI lr = Some [])"

definition dlPromise ::
  "'w dlapi \<Rightarrow> (string \<Rightarrow> string option) \<Rightarrow> IDependency
     \<Rightarrow> err + ('w, 'z, string option) prom" where
  "dlPromise dl downloads dep =
     (case download dep of
        DlUndefined \<Rightarrow>
          Inr (if noSourceURI dep
               then reject (ProcessCanceled ''Failed to determine download url'' False)
               else downloadModAsync dl (dep_reference dep) (hd (lookupResults dep)))
      | DlNull \<Rightarrow> Inr (reject (ProcessCanceled ''Failed to determine download url'' False))
      | DlId i \<Rightarrow>
          (case downloads i of
             None \<Rightarrow> Inl (TypeError ''Cannot read property state of undefined'')
           | Some st \<Rightarrow>
               Inr (if st = ''paused''
                    then then_p (call (resumeDownload dl i)
                                   (\<lambda>r. EmitEvent ''resume-download'' [i]))
                           (\<lambda>_. resolve (Some i))
                    else resolve (Some i))))"

text \<open>
  The chain of one dependency before its catch handlers: download, install unless the mod
  is there, enable, apply the extras, and read the mod back from the store.
\<close>

definition dependencyChain ::
  "'w env \<Rightarrow> 'w api \<Rightarrow> 'w dlapi \<Rightarrow> IProfile \<Rightarrow> ('w, 'z, string option) prom \<Rightarrow> IDependency
     \<Rightarrow> ('w, 'z, IDependency option) prom" where
  "dependencyChain env api dl profile p dep =
     then_p
       (then_p p (\<lambda>downloadId.
          case dep_mod dep of
            None \<Rightarrow> installModAsync dl downloadId (dep_installerChoices dep) (dep_fileList dep)
          | Some m \<Rightarrow> resolve (mod_id m)))
       (\<lambda>modId.
          then_p (store_dispatch env (SetModEnabled (profile_id profile) modId True)) (\<lambda>_.
          then_p (applyExtraFromRule env profile modId dep) (\<lambda>_.
            (\<lambda>s. case getMods api (world s) (profile_gameId profile) of
                    None \<Rightarrow> (Inl (TypeError ''Cannot read property of undefined''), s)
                  | Some mods \<Rightarrow> (Inr (Some (dep\<lparr>dep_mod := map_of mods modId\<rparr>)), s)))))"

text \<open>The text a notification shows for an error.\<close>

definition err_text :: "err \<Rightarrow> string" where
  "err_text e = (case err_message e of Inr (Some m) \<Rightarrow> m | _ \<Rightarrow> [])"

definition dependencyFailed :: "err \<Rightarrow> bool option \<Rightarrow> event" where
  "dependencyFailed e allowReport =
     ShowErrorNotification ''Failed to install dependency'' (err_text e) allowReport"

text \<open>The whole callback for one dependency, with the three catch handlers.\<close>

definition installDependency ::
  "'w env \<Rightarrow> 'w api \<Rightarrow> 'w dlapi \<Rightarrow> IProfile \<Rightarrow> (string \<Rightarrow> string option) \<Rightarrow> IDependency
     \<Rightarrow> ('w, 'z, IDependency option) prom" where
  "installDependency env api dl profile downloads dep =
     (case dlPromise dl downloads dep of
        Inl thrown \<Rightarrow> reject thrown
      | Inr p \<Rightarrow>
          catch_p
            (catch_p
              (catch_p (dependencyChain env api dl profile p dep)
                 (\<lambda>e. case e of
                         ProcessCanceled m alreadyReported \<Rightarrow>
                           if alreadyReported then resolve None
                           else then_p (emit (dependencyFailed e (Some False)))
                                  (\<lambda>_. resolve None)
                       | _ \<Rightarrow> reject e))
              (\<lambda>e. case e of
                      NotFound m \<Rightarrow>
                        then_p (emit (dependencyFailed e (Some False))) (\<lambda>_. resolve None)
                    | _ \<Rightarrow> reject e))
            (\<lambda>e. if e = UserCanceled then reject e
                  else then_p (emit (dependencyFailed e None)) (\<lambda>_. resolve None)))"



text \<open>
  \<^verbatim>\<open>updateRules\<close>: for each dependency the rule of the source mod that refers to it is
  replaced by one whose reference is pinned to \<^verbatim>\<open>dep.mod.id\<close>. Reading the id of a
  mod that is \<^verbatim>\<open>undefined\<close> throws.
\<close>

definition updateRule ::
  "'w env \<Rightarrow> 'w dlapi \<Rightarrow> IProfile \<Rightarrow> string \<Rightarrow> bool \<Rightarrow> IDependency \<Rightarrow> ('w, 'z, unit) prom" where
  "updateRule env dl profile sourceModId recommended dep s =
     (case dep_mod dep of
        None \<Rightarrow> reject (TypeError ''Cannot read property id of undefined'') s
      | Some m \<Rightarrow>
          let r = dep_reference dep;
              updatedRef = r\<lparr>ref_id := Some (mod_id m)\<rparr>;
              updatedRef' =
                (if isFuzzyVersion dl (versionMatch r) \<and> fileMD5 r \<noteq> None
                    \<and> (logicalFileName r \<noteq> None \<or> fileExpression r \<noteq> None)
                 then updatedRef\<lparr>fileMD5 := None\<rparr> else updatedRef);
              oldRule = find (\<lambda>iter. referenceEqual dl (reference iter) r)
                          (getRules dl (world s) (profile_gameId profile) sourceModId)
          in then_p (store_dispatch env (RemoveModRule (profile_gameId profile) sourceModId oldRule))
               (\<lambda>_. store_dispatch env
                       (AddModRule (profile_gameId profile) sourceModId
                          (Some \<lparr>rule_type = (if recommended then ''recommends'' else ''requires''),
                                 reference = updatedRef',
                                 rule_extra = (case oldRule of None \<Rightarrow> None
                                               | Some old \<Rightarrow> rule_extra old)\<rparr>)))
               s)"

definition updateRules ::
  "'w env \<Rightarrow> 'w dlapi \<Rightarrow> IProfile \<Rightarrow> string \<Rightarrow> IDependency list \<Rightarrow> bool
     \<Rightarrow> ('w, 'z, unit) prom" where
  "updateRules env dl profile sourceModId dependencies recommended =
     each_p (updateRule env dl profile sourceModId recommended) dependencies"


text \<open>
  The test of \<^verbatim>\<open>downloadModAsync\<close> for a fuzzy version match, and the two events it
  can lead to.
\<close>

definition fuzzyMatch :: "'w dlapi \<Rightarrow> IModReference \<Rightarrow> bool" where
  "fuzzyMatch dl requirement =
     (case versionMatch requirement of
        None \<Rightarrow> False
      | Some vm \<Rightarrow> first_not_hex vm \<or> validRange dl vm \<noteq> Some vm)"

definition startDownloadEvent :: "IModInfoEx \<Rightarrow> event" where
  "startDownloadEvent lookupResult =
     EmitEvent ''start-download'' [js_str (sourceURI lookupResult)]"

definition startDownloadUpdateEvent :: "IModInfoEx \<Rightarrow> string \<Rightarrow> event" where
  "startDownloadUpdateEvent lookupResult pattern =
     EmitEvent ''start-download-update''
       [js_str (details_modId lookupResult), js_str (details_fileId lookupResult), pattern]"


section \<open>A simulated world for running the model\<close>

text \<open>
  A small world on which the model is run at concrete inputs. Its file system is a list of
  existing paths, with the paths whose rename is refused (EPERM) and the paths whose removal
  is refused (EBUSY); paths are joined with a slash, the only invalid destination is \<open>..\<close>,
  and the only known game is \<open>skyrim\<close>. It also holds the answers the user will give to
  the dialogs, the mods of \<open>skyrim\<close> in the store, and the file id that
  \<^verbatim>\<open>filterModInfo\<close> finds for the archive.
\<close>

record simw =
  files :: "string list"
  locked :: "string list"
  undeletable :: "string list"
  answers :: "IDialogResult list"
  store_mods :: "(string \<times> IMod) list"
  archive_fileId :: "int option"

definition ENOENT :: err where
  "ENOENT = Error ''ENOENT: no such file or directory'' (Some ''ENOENT'') None"

definition EPERM :: err where
  "EPERM = Error ''EPERM: operation not permitted'' (Some ''EPERM'') None"

definition EBUSY :: err where
  "EBUSY = Error ''EBUSY: resource busy or locked'' (Some ''EBUSY'') None"

definition sim_dirname :: "string \<Rightarrow> string" where
  "sim_dirname p = rev (drop 1 (dropWhile (\<lambda>c. c \<noteq> CHR ''/'') (rev p)))"

definition sim_basename :: "string \<Rightarrow> string" where
  "sim_basename p = rev (takeWhile (\<lambda>c. c \<noteq> CHR ''/'') (rev p))"

definition sim_extname :: "string \<Rightarrow> string" where
  "sim_extname p =
     (if CHR ''.'' \<in> set (sim_basename p)
      then CHR ''.'' # rev (takeWhile (\<lambda>c. c \<noteq> CHR ''.'') (rev (sim_basename p)))
      else [])"

definition sim_env :: "simw env" where
  "sim_env = \<lparr>
     win32 = False, sep = CHR ''/'', EOL = [CHR 0x0A],
     path_join = (\<lambda>a b. a @ ''/'' @ b),
     path_dirname = sim_dirname,
     path_basename = sim_basename,
     path_extname = sim_extname,
     isPathValid = (\<lambda>p rel. p \<noteq> ''..''),
     getGame = (\<lambda>g. if g = ''skyrim'' then Some \<lparr>contributed = None, modTypes = []\<rparr> else None),
     ensureDirAsync = (\<lambda>p w. (Inr (), w)),
     statAsync = (\<lambda>p w. (if p \<in> set (files w) then Inr False else Inl ENOENT, w)),
     renameAsync = (\<lambda>a b w.
        if a \<notin> set (files w) then (Inl ENOENT, w)
        else if a \<in> set (locked w) then (Inl EPERM, w)
        else (Inr (), w\<lparr>files := b # removeAll a (files w)\<rparr>)),
     copyAsync = (\<lambda>a b w.
        if a \<notin> set (files w) then (Inl ENOENT, w)
        else (Inr (), w\<lparr>files := b # files w\<rparr>)),
     writeFileAsync = (\<lambda>p d w. (Inr (), w\<lparr>files := p # files w\<rparr>)),
     removeAsync = (\<lambda>p w.
        if p \<in> set (undeletable w) then (Inl EBUSY, w)
        else (Inr (), w\<lparr>files := filter (\<lambda>f. f \<noteq> p \<and> take (length p + 1) f \<noteq> p @ ''/'')
                                      (files w)\<rparr>)),
     getNormalizeFunc = (\<lambda>p w. (Inr (), w)),
     nestedInstall = (\<lambda>p t d g k w. (Inr (), w)),
     dispatch = (\<lambda>a w. w)\<rparr>"

definition instr :: "InstructionType \<Rightarrow> IInstruction" where
  "instr t = \<lparr>itype = t, source = None, destination = None, isection = None, key = None,
     ivalue = None, data = None, path = None, submoduleType = None, irule = None\<rparr>"

definition w0 :: simw where
  "w0 = \<lparr>files = [], locked = [], undeletable = [], answers = [], store_mods = [],
          archive_fileId = None\<rparr>"







text \<open>Extracting an archive yields the one file \<open>x\<close>.\<close>

definition sim_profile :: IProfile where
  "sim_profile = \<lparr>profile_id = ''p1'', profile_gameId = ''skyrim'', modEnabled = (\<lambda>m. False)\<rparr>"

definition sim_api :: "simw api" where
  "sim_api = \<lparr>
     extractFull = (\<lambda>a t w. (Inr (0, []), w\<lparr>files := (t @ ''/x'') # files w\<rparr>)),
     walk = (\<lambda>t w. (Inr (map (drop (length t + 1))
                           (filter (\<lambda>f. take (length t + 1) f = t @ ''/'') (files w))), w)),
     makeListInstaller = (\<lambda>l t w. (Inr None, w)),
     showDialog = (\<lambda>title labels w.
        case answers w of
          [] \<Rightarrow> (\<lparr>action = ''Cancel'', input = []\<rparr>, w)
        | a # rest \<Rightarrow> (a, w\<lparr>answers := rest\<rparr>)),
     queryGameId = (\<lambda>ids m w. (Inr (case ids of [] \<Rightarrow> None | g # _ \<Rightarrow> Some g), w)),
     emitAndAwait = (\<lambda>ev args w. (Inr (), w)),
     genHash = (\<lambda>p w. (Inr (''d41d8cd98f00b204e9800998ecf8427e'', 0), w)),
     lookupModMeta = (\<lambda>p md5 sz g w. (Inr [], w)),
     deriveInstallName = (\<lambda>archiveName i. archiveName),
     getMods = (\<lambda>w g. if g = ''skyrim'' then Some (store_mods w) else None),
     removeMod = (\<lambda>g m w. (Inr (), w\<lparr>store_mods := filter (\<lambda>(k, v). k \<noteq> m) (store_mods w)\<rparr>)),
     filterModInfo = (\<lambda>i d w. (Inr \<lparr>mi_fileId = archive_fileId w, mi_data = []\<rparr>, w)),
     installPath = (\<lambda>g. ''/m''),
     activeProfile = (\<lambda>w. Some sim_profile)\<rparr>"

text \<open>
  Installers: \<open>copy_all\<close> supports every file list and copies each file to its own name;
  \<open>picky\<close> supports none.
\<close>

definition supports_all :: "string list \<Rightarrow> string \<Rightarrow> 'w \<Rightarrow> (err + ISupportedResult) \<times> 'w" where
  "supports_all fl g w = (Inr \<lparr>supported = True, requiredFiles = []\<rparr>, w)"

definition supports_none :: "string list \<Rightarrow> string \<Rightarrow> 'w \<Rightarrow> (err + ISupportedResult) \<times> 'w" where
  "supports_none fl g w = (Inr \<lparr>supported = False, requiredFiles = []\<rparr>, w)"

definition copy_files ::
  "string list \<Rightarrow> string \<Rightarrow> string \<Rightarrow> string option \<Rightarrow> bool option \<Rightarrow> 'w
     \<Rightarrow> (err + instructions) \<times> 'w" where
  "copy_files fl t g c u w =
     (Inr (InstrList (map (\<lambda>f. (instr Copy)\<lparr>source := Some f, destination := Some f\<rparr>) fl)), w)"

definition copy_all :: "int \<Rightarrow> 'w IModInstaller" where
  "copy_all p = \<lparr>priority = p, testSupported = supports_all, installFunc = copy_files\<rparr>"

definition picky :: "int \<Rightarrow> 'w IModInstaller" where
  "picky p = \<lparr>priority = p, testSupported = supports_none, installFunc = copy_files\<rparr>"

definition sw0 :: "simw st" where
  "sw0 = \<lparr>world = w0, trace = []\<rparr>"

text \<open>
  A download manager: \<^verbatim>\<open>start-download\<close> answers with the id \<open>dl-url\<close>,
  \<^verbatim>\<open>start-download-update\<close> with the id \<open>dl-update\<close> (in \<open>sim_dl_falsy\<close>: with an
  undefined id); installing the download \<open>dl-cancel\<close> is canceled by the user, installing
  \<open>dl-broken\<close> fails, installing any other download \<open>d\<close> adds the mod \<open>mod-d\<close> to the
  store.
\<close>

definition sim_mod :: "string \<Rightarrow> IMod" where
  "sim_mod i = \<lparr>mod_id = i, newestFileId = None, fileId = None, installerChoices = None,
     mod_attributes = [], mod_rules = None, fileOverrides = None, mod_type = None\<rparr>"

definition sim_dl :: "simw dlapi" where
  "sim_dl = \<lparr>
     startDownload = (\<lambda>uri w. (Some (Inr (Some ''dl-url'')), w)),
     startDownloadUpdate = (\<lambda>src dom m f pat w. (Inr (Some [Some ''dl-update'']), w)),
     resumeDownload = (\<lambda>i w. (Inr (), w)),
     validRange = (\<lambda>v. if v = ''1.0.0'' then Some ''1.0.0''
                        else if v = ''1.x'' then Some ''>=1.0.0 <2.0.0-0''
                        else if v = ''>=1.0.0'' then Some ''>=1.0.0'' else None),
     getDownload = (\<lambda>w i. Some (''/dl/'' @ i @ ''.zip'')),
     downloadState = (\<lambda>w i. if i = ''dl-paused'' then Some ''paused''
                             else if i = ''dl-gone'' then None else Some ''finished''),
     installArchive = (\<lambda>i c fl w.
        if i = ''dl-cancel'' then (Inl UserCanceled, w)
        else if i = ''dl-broken'' then (Inl (Error ''boom'' None None), w)
        else (Inr (''mod-'' @ i),
              w\<lparr>store_mods := store_mods w @ [(''mod-'' @ i, sim_mod (''mod-'' @ i))]\<rparr>)),
     isFuzzyVersion = (\<lambda>v. v \<noteq> Some ''1.0.0''),
     referenceEqual = (\<lambda>a b. a = b),
     getRules = (\<lambda>w g m. [])\<rparr>"


definition sim_ref :: "string option \<Rightarrow> IModReference" where
  "sim_ref v = \<lparr>ref_id = None, fileMD5 = None, versionMatch = v, logicalFileName = None,
                fileExpression = None\<rparr>"

definition sim_lookup :: "string option \<Rightarrow> string option \<Rightarrow> IModInfoEx" where
  "sim_lookup m f = \<lparr>sourceURI = Some ''https://example.org/file'', li_gameId = Some ''skyrim'',
     li_source = Some ''nexus'', li_domainName = None, details_modId = m, details_fileId = f\<rparr>"









section \<open>Laws of the promise combinators and of the effect discipline\<close>

lemma appendsI:
  "(\<And>s. \<exists>evs. trace (snd (p s)) = trace s @ evs \<and> list_all P evs) \<Longrightarrow> appends P p"
  by (simp add: appends_def)

lemma appendsD:
  "appends P p \<Longrightarrow> p s = (r, s') \<Longrightarrow> \<exists>evs. trace s' = trace s @ evs \<and> list_all P evs"
  by (auto simp: appends_def dest: spec [of _ s])

lemma appends_resolve: "appends P (resolve x)"
  by (simp add: appends_def resolve_def)








lemma appends_finally:
  assumes p: "appends P p" and h: "appends P h"
  shows "appends P (finally_p p h)"
proof (rule appendsI)
  fix s
  obtain r s1 where ps: "p s = (r, s1)" by (cases "p s")
  from appendsD [OF p ps] obtain e1 where e1: "trace s1 = trace s @ e1" "list_all P e1" by blast
  obtain r2 s2 where fs: "h s1 = (r2, s2)" by (cases "h s1")
  from appendsD [OF h fs] obtain e2 where e2: "trace s2 = trace s1 @ e2" "list_all P e2" by blast
  from ps fs e1 e2 show "\<exists>evs. trace (snd (finally_p p h s)) = trace s @ evs \<and> list_all P evs"
    by (cases r2) (auto simp: finally_p_def)
qed


lemma appends_map_all:
  assumes f: "\<And>x. appends P (f x)"
  shows "appends P (map_all f xs)"
proof (induction xs)
  case Nil
  show ?case by (simp add: appends_resolve)
next
  case (Cons x xs)
  show ?case
  proof (rule appendsI)
    fix s
    obtain r s1 where ps: "f x s = (r, s1)" by (cases "f x s")
    from appendsD [OF f ps] obtain e1 where e1: "trace s1 = trace s @ e1" "list_all P e1" by blast
    obtain r2 s2 where fs: "map_all f xs s1 = (r2, s2)" by (cases "map_all f xs s1")
    from appendsD [OF Cons fs] obtain e2 where e2: "trace s2 = trace s1 @ e2" "list_all P e2" by blast
    from ps fs e1 e2 show "\<exists>evs. trace (snd (map_all f (x # xs) s)) = trace s @ evs \<and> list_all P evs"
      by (cases r) auto
  qed
qed

lemma appends_mono: "appends P p \<Longrightarrow> (\<And>ev. P ev \<Longrightarrow> Q ev) \<Longrightarrow> appends Q p"
  unfolding appends_def by (meson list_all_iff)




section \<open>Properties of processInstructions\<close>


text \<open>
  Claim C6. Whatever the environment, the paths and the state: on
  \<^verbatim>\<open>instructions === null\<close> processInstructions rejects with UserCanceled; on
  \<^verbatim>\<open>undefined\<close> and on the empty list it rejects with ProcessCanceled and the
  message "Empty archive or no options selected". Nothing else happens (the state is
  unchanged).
\<close>

theorem processInstructions_null_undefined_empty:
  "processInstructions env archivePath tempPath destinationPath gameId modId InstrNull s
     = (Inl UserCanceled, s)
   \<and> processInstructions env archivePath tempPath destinationPath gameId modId InstrUndefined s
     = (Inl (ProcessCanceled ''Empty archive or no options selected'' False), s)
   \<and> processInstructions env archivePath tempPath destinationPath gameId modId (InstrList []) s
     = (Inl (ProcessCanceled ''Empty archive or no options selected'' False), s)"
  by (simp add: processInstructions_def reject_def)





section \<open>Properties of the copy stage\<close>



























section \<open>Properties of the installer registry\<close>

lemma sort_key_sort_key_snoc:
  "sort_key f (sort_key f xs @ [x]) = sort_key f (xs @ [x])"
proof (rule properties_for_sort_key [symmetric])
  show "mset (sort_key f (sort_key f xs @ [x])) = mset (xs @ [x])" by simp
  show "sorted (map f (sort_key f (sort_key f xs @ [x])))" by (rule sorted_sort_key)
  fix k
  have "filter (\<lambda>y. f y = f k) (sort_key f (sort_key f xs @ [x]))
          = filter (\<lambda>y. f y = f k) (sort_key f xs @ [x])"
    by (rule sort_key_stable)
  also have "\<dots> = filter (\<lambda>y. f y = f k) (xs @ [x])"
    by (simp add: sort_key_stable)
  finally show "filter (\<lambda>y. f k = f y) (sort_key f (sort_key f xs @ [x]))
                  = filter (\<lambda>y. f k = f y) (xs @ [x])"
    by (simp add: eq_commute [of "f k"])
qed

lemma registerAll_snoc:
  "registerAll (regs @ [r])
     = addInstaller (priority r) (testSupported r) (installFunc r) (registerAll regs)"
  by (simp add: registerAll_def)

lemma registerAll_sort_key: "registerAll regs = sort_key priority regs"
proof (induction regs rule: rev_induct)
  case Nil
  show ?case by (simp add: registerAll_def)
next
  case (snoc r regs)
  have eta: "\<lparr>priority = priority r, testSupported = testSupported r,
               installFunc = installFunc r\<rparr> = r"
    by (cases r) simp
  have "registerAll (regs @ [r]) = sort_key priority (sort_key priority regs @ [r])"
    by (simp only: registerAll_snoc addInstaller_def snoc eta)
  then show ?case by (simp only: sort_key_sort_key_snoc)
qed

lemma getInstaller_spec_find:
  fixes s :: "('w, 'z) st_scheme"
  shows "getInstaller ms fl g offset s = spec_find (drop offset ms) fl g s"
proof (induction "length ms - offset" arbitrary: offset s)
  case 0
  then show ?case by (subst getInstaller.simps) simp
next
  case (Suc n)
  then have lt: "offset < length ms" by simp
  have IH: "\<And>s' :: ('w, 'z) st_scheme. getInstaller ms fl g (offset + 1) s'
              = spec_find (drop (offset + 1) ms) fl g s'"
    using Suc.hyps(1) [of "offset + 1"] Suc.hyps(2) by simp
  have d: "drop offset ms = ms ! offset # drop (offset + 1) ms"
    using lt by (simp add: Cons_nth_drop_Suc)
  show ?case
    using lt IH by (subst getInstaller.simps, subst d) (simp add: then_p_def split: prod.splits sum.splits)
qed

lemma example_registry:
  "addInstaller 5 tC iC (addInstaller 0 tB iB (addInstaller 10 tA iA []))
     = [\<lparr>priority = 0, testSupported = tB, installFunc = iB\<rparr>,
        \<lparr>priority = 5, testSupported = tC, installFunc = iC\<rparr>,
        \<lparr>priority = 10, testSupported = tA, installFunc = iA\<rparr>]"
  by (simp add: addInstaller_def)

lemma example_selection:
  "tB fl g (world s) = (Inr rB, w') \<Longrightarrow> supported rB \<Longrightarrow>
   getInstaller (addInstaller 5 tC iC (addInstaller 0 tB iB (addInstaller 10 tA iA []))) fl g 0 s
     = (Inr (Some \<lparr>installer = \<lparr>priority = 0, testSupported = tB, installFunc = iB\<rparr>,
                   si_requiredFiles = requiredFiles rB\<rparr>), s\<lparr>world := w'\<rparr>)"
  by (simp add: example_registry getInstaller_spec_find then_p_def query_def resolve_def)

lemma addInstaller_stable:
  "filter (\<lambda>m. priority m = k) (addInstaller p ts inst ms)
     = filter (\<lambda>m. priority m = k) ms
       @ (if p = k then [\<lparr>priority = p, testSupported = ts, installFunc = inst\<rparr>] else [])"
  by (simp add: addInstaller_def sort_key_stable)

text \<open>
  Claim C7. \<^verbatim>\<open>addInstaller\<close> leaves the list sorted by ascending priority, the new
  installer behind the installers of its priority; so after any sequence of registrations
  the list is sorted and installers of equal priority stand in the order of their
  registration. \<^verbatim>\<open>getInstaller\<close> (from offset 0) is the scan of the list in that order
  which returns the first installer whose \<^verbatim>\<open>testSupported\<close> resolves with
  \<^verbatim>\<open>supported === true\<close>. Hence, after the registrations (10, A), (0, B), (5, C), a
  file list that B supports resolves to B (whatever A and C say: they are not even asked).
\<close>

theorem installer_order_and_selection:
  fixes s :: "('w, 'z) st_scheme"
  shows
  "sorted (map priority (addInstaller p ts inst ms))
   \<and> filter (\<lambda>m. priority m = k) (addInstaller p ts inst ms)
       = filter (\<lambda>m. priority m = k) ms
         @ (if p = k then [\<lparr>priority = p, testSupported = ts, installFunc = inst\<rparr>] else [])
   \<and> sorted (map priority (registerAll regs))
   \<and> filter (\<lambda>m. priority m = k) (registerAll regs) = filter (\<lambda>m. priority m = k) regs
   \<and> mset (registerAll regs) = mset regs
   \<and> getInstaller mInstallers fileList gameId 0 s = spec_find mInstallers fileList gameId s
   \<and> (tB fileList gameId (world s) = (Inr rB, w') \<longrightarrow> supported rB \<longrightarrow>
        getInstaller
          (addInstaller 5 tC iC (addInstaller 0 tB iB (addInstaller 10 tA iA [])))
          fileList gameId 0 s
        = (Inr (Some \<lparr>installer = \<lparr>priority = 0, testSupported = tB, installFunc = iB\<rparr>,
                      si_requiredFiles = requiredFiles rB\<rparr>),
           s\<lparr>world := w'\<rparr>))"
proof -
  have a: "sorted (map priority (addInstaller p ts inst ms))"
    by (simp add: addInstaller_def)
  have b: "sorted (map priority (registerAll regs))"
    by (simp add: registerAll_sort_key)
  have c: "filter (\<lambda>m. priority m = k) (registerAll regs) = filter (\<lambda>m. priority m = k) regs"
    by (simp add: registerAll_sort_key sort_key_stable)
  have d: "mset (registerAll regs) = mset regs"
    by (simp add: registerAll_sort_key)
  have e: "getInstaller mInstallers fileList gameId 0 s = spec_find mInstallers fileList gameId s"
    by (simp add: getInstaller_spec_find)
  show ?thesis
    using a b c d e addInstaller_stable [of k p ts inst ms]
      example_selection [of tB fileList gameId s rB w' tC iC iB tA iA]
    by blast
qed

text \<open>
  The theorem on the simulated world: A, B and C all support the file list, and B is
  selected.
\<close>

theorem installer_order_and_selection_witness:
  "getInstaller
     (addInstaller 5 supports_all copy_files
       (addInstaller 0 supports_all copy_files (addInstaller 10 supports_all copy_files [])))
     [''x''] ''skyrim'' 0 sw0
   = (Inr (Some \<lparr>installer = \<lparr>priority = 0, testSupported = supports_all,
                                installFunc = copy_files\<rparr>,
                  si_requiredFiles = []\<rparr>),
      sw0)"
proof -
  have t: "supports_all [''x''] ''skyrim'' (world sw0)
             = (Inr \<lparr>supported = True, requiredFiles = []\<rparr>, world sw0)"
    by (simp add: supports_all_def)
  have u: "supported \<lparr>supported = True, requiredFiles = []\<rparr>" by simp
  from installer_order_and_selection [where tB = supports_all and fileList = "[''x'']"
      and gameId = "''skyrim''" and s = sw0 and tA = supports_all and tC = supports_all
      and iA = copy_files and iB = copy_files and iC = copy_files
      and rB = "\<lparr>supported = True, requiredFiles = []\<rparr>" and w' = "world sw0"
      and p = 0 and ts = supports_all and inst = copy_files
      and ms = "[]::simw IModInstaller list" and k = 0
      and regs = "[]::simw IModInstaller list"
      and mInstallers = "[]::simw IModInstaller list"] t u
  show ?thesis by simp
qed

section \<open>Properties of installInner\<close>

lemma spec_find_none:
  fixes s :: "('w, 'z) st_scheme"
  assumes "\<forall>m \<in> set ms. \<forall>w. \<exists>r. testSupported m fl g w = (Inr r, w) \<and> \<not> supported r"
  shows "spec_find ms fl g s = (Inr None, s)"
  using assms
proof (induction ms)
  case Nil
  show ?case by (simp add: resolve_def)
next
  case (Cons m ms)
  from Cons.prems obtain r where r: "testSupported m fl g (world s) = (Inr r, world s)"
    "\<not> supported r" by (meson list.set_intros(1))
  from Cons have "spec_find ms fl g s = (Inr None, s)" by simp
  with r show ?case by (simp add: then_p_def query_def)
qed

text \<open>
  Claim C5, as stated, fails: with no explicit file list and a registry of two installers
  that both answer \<^verbatim>\<open>supported: false\<close>, \<^verbatim>\<open>installInner\<close> rejects with the plain
  \<^verbatim>\<open>Error\<close> "no installer supporting this file", which is no SetupError.
\<close>

theorem installInner_no_installer_counterexample:
  "installInner sim_env sim_api [picky 0, picky 5] ''/dl/Foo.zip'' ''/m/Foo.installing''
      ''/m/Foo'' ''skyrim'' True None None None sw0
    = (Inl (Error ''no installer supporting this file'' None
         (Some ''Error: no installer supporting this file'')),
       \<lparr>world = w0\<lparr>files := [''/m/Foo.installing/x'']\<rparr>,
        trace = [ExtractFull ''/dl/Foo.zip'' ''/m/Foo.installing'' None, SetProgress]\<rparr>)"
  by code_simp

text \<open>
  Claim C5, amended. When no explicit file list is supplied, the archive was extracted and
  its files listed, and the scan of the registry resolves without an installer (which it
  does when every registered installer answers \<^verbatim>\<open>supported: false\<close>), then
  \<^verbatim>\<open>installInner\<close>, and with it the pipeline, fails with the plain \<^verbatim>\<open>Error\<close>
  "no installer supporting this file"; no installer is run.
\<close>

theorem installInner_no_installer:
  fixes s :: "('w, 'z) st_scheme"
  shows
  "(extractAndWalk env api archivePath tempPath installContext s = (Inr fileList, sa)
      \<longrightarrow> getInstaller mInstallers fileList gameId 0 sa = (Inr None, sb)
      \<longrightarrow> installInner env api mInstallers archivePath tempPath destinationPath gameId
            installContext installChoices None unattended s
          = (Inl (Error ''no installer supporting this file'' None
               (Some ''Error: no installer supporting this file'')), sb))
   \<and> ((\<forall>m \<in> set mInstallers. \<forall>w. \<exists>r.
          testSupported m fileList gameId w = (Inr r, w) \<and> \<not> supported r)
      \<longrightarrow> getInstaller mInstallers fileList gameId 0 sa = (Inr None, sa))"
proof -
  have a: "extractAndWalk env api archivePath tempPath installContext s = (Inr fileList, sa)
      \<Longrightarrow> getInstaller mInstallers fileList gameId 0 sa = (Inr None, sb)
      \<Longrightarrow> installInner env api mInstallers archivePath tempPath destinationPath gameId
            installContext installChoices None unattended s
          = (Inl (Error ''no installer supporting this file'' None
               (Some ''Error: no installer supporting this file'')), sb)"
    by (simp add: installInner_def then_p_def reject_def noInstallerError_def)
  have b: "(\<forall>m \<in> set mInstallers. \<forall>w. \<exists>r.
          testSupported m fileList gameId w = (Inr r, w) \<and> \<not> supported r)
      \<Longrightarrow> getInstaller mInstallers fileList gameId 0 sa = (Inr None, sa)"
    by (simp add: getInstaller_spec_find spec_find_none)
  from a b show ?thesis by blast
qed

theorem installInner_no_installer_witness:
  "extractAndWalk sim_env sim_api ''/dl/Foo.zip'' ''/m/Foo.installing'' True sw0
     = (Inr [''x''],
        \<lparr>world = w0\<lparr>files := [''/m/Foo.installing/x'']\<rparr>,
         trace = [ExtractFull ''/dl/Foo.zip'' ''/m/Foo.installing'' None, SetProgress]\<rparr>)
   \<and> installInner sim_env sim_api [picky 0, picky 5] ''/dl/Foo.zip'' ''/m/Foo.installing''
        ''/m/Foo'' ''skyrim'' True None None None sw0
     = (Inl (Error ''no installer supporting this file'' None
          (Some ''Error: no installer supporting this file'')),
        \<lparr>world = w0\<lparr>files := [''/m/Foo.installing/x'']\<rparr>,
         trace = [ExtractFull ''/dl/Foo.zip'' ''/m/Foo.installing'' None, SetProgress]\<rparr>)"
proof -
  define s1 :: "simw st" where "s1 = \<lparr>world = w0\<lparr>files := [''/m/Foo.installing/x'']\<rparr>,
         trace = [ExtractFull ''/dl/Foo.zip'' ''/m/Foo.installing'' None, SetProgress]\<rparr>"
  have w: "extractAndWalk sim_env sim_api ''/dl/Foo.zip'' ''/m/Foo.installing'' True sw0
             = (Inr [''x''], s1)"
    unfolding s1_def by code_simp
  have n: "\<forall>m \<in> set [picky 0, picky 5 :: simw IModInstaller]. \<forall>w. \<exists>r.
          testSupported m [''x''] ''skyrim'' w = (Inr r, w) \<and> \<not> supported r"
    by (simp add: picky_def supports_none_def)
  note T = installInner_no_installer [where env = sim_env and api = sim_api
      and archivePath = "''/dl/Foo.zip''" and tempPath = "''/m/Foo.installing''"
      and installContext = True and s = sw0 and fileList = "[''x'']" and sa = s1 and sb = s1
      and mInstallers = "[picky 0, picky 5]" and gameId = "''skyrim''"
      and destinationPath = "''/m/Foo''" and installChoices = None and unattended = None]
  from T n have g: "getInstaller [picky 0, picky 5] [''x''] ''skyrim'' 0 s1 = (Inr None, s1)"
    by blast
  from T w g have "installInner sim_env sim_api [picky 0, picky 5] ''/dl/Foo.zip''
        ''/m/Foo.installing'' ''/m/Foo'' ''skyrim'' True None None None sw0
     = (Inl (Error ''no installer supporting this file'' None
          (Some ''Error: no installer supporting this file'')), s1)"
    by blast
  with w show ?thesis by (simp add: s1_def)
qed


section \<open>Properties of install: the choice between versions\<close>













section \<open>Properties of install: cleaning up\<close>
















text \<open>
  A chain rejected with \<^verbatim>\<open>undefined\<close> makes the catch handler throw while it reads
  \<^verbatim>\<open>err.message\<close>: nothing is cleaned up, and the branch for
  \<^verbatim>\<open>err === undefined\<close> is never reached.
\<close>

lemma installFailed_undefined:
  fixes s :: "'w ist"
  shows "installFailed env api ap cb ErrUndefined s
           = (Inl (TypeError ''Cannot read property message of undefined''), s)"
  by (simp add: installFailed_def isCanceled_def reject_def)






section \<open>Properties of the dependency installer\<close>

lemma downloadURL_trace:
  "downloadURL dl lr s = (r, s') \<Longrightarrow> trace s' = trace s @ [startDownloadEvent lr]"
  by (auto simp: downloadURL_def startDownloadEvent_def split: prod.splits)

text \<open>
  Claim C8, as stated, fails: with a fuzzy version match ("1.x") and a lookup result that
  has a mod id but no file id, \<^verbatim>\<open>downloadModAsync\<close> takes the
  \<^verbatim>\<open>start-download-update\<close> path (\<^verbatim>\<open>downloadMatching\<close> falls back only when
  both ids are missing).
\<close>

theorem downloadModAsync_one_id_counterexample:
  "fuzzyMatch sim_dl (sim_ref (Some ''1.x''))
   \<and> details_fileId (sim_lookup (Some ''42'') None) = None
   \<and> downloadModAsync sim_dl (sim_ref (Some ''1.x'')) (sim_lookup (Some ''42'') None) sw0
       = (Inr (Some ''dl-update''),
          sw0\<lparr>trace := [EmitEvent ''start-download-update'' [''42'', ''undefined'', ''1.x'']]\<rparr>)"
  by code_simp

text \<open>
  Claim C8, amended. \<^verbatim>\<open>downloadModAsync\<close> takes the
  \<^verbatim>\<open>start-download-update\<close> path exactly when the reference's
  \<^verbatim>\<open>versionMatch\<close> is fuzzy (its first character is no hexadecimal digit, or it is not
  equal to its own valid range) and the lookup result has a mod id or a file id: then this
  event is the only one emitted. In every other case it emits \<^verbatim>\<open>start-download\<close>
  with the source URI of the lookup result (a second time when the first download answers
  without an id), and nothing else.
\<close>

theorem downloadModAsync_path:
  fixes s :: "('w, 'z) st_scheme"
  assumes run: "downloadModAsync dl requirement lookupResult s = (r, s')"
  shows "if fuzzyMatch dl requirement
            \<and> (details_modId lookupResult \<noteq> None \<or> details_fileId lookupResult \<noteq> None)
         then trace s' = trace s
                @ [startDownloadUpdateEvent lookupResult (the (versionMatch requirement))]
         else trace s' = trace s @ [startDownloadEvent lookupResult]
              \<or> trace s' = trace s @ [startDownloadEvent lookupResult, startDownloadEvent lookupResult]"
proof (cases "fuzzyMatch dl requirement")
  case False
  then have "downloadModAsync dl requirement lookupResult s = downloadURL dl lookupResult s"
    by (auto simp: fuzzyMatch_def downloadModAsync_def split: option.splits)
  with run False show ?thesis by (auto dest: downloadURL_trace)
next
  case True
  then obtain vm where vm: "versionMatch requirement = Some vm"
    and fz: "first_not_hex vm \<or> validRange dl vm \<noteq> Some vm"
    by (auto simp: fuzzyMatch_def split: option.splits)
  show ?thesis
  proof (cases "details_modId lookupResult = None \<and> details_fileId lookupResult = None")
    case True
    obtain r1 s1 where u1: "downloadURL dl lookupResult s = (r1, s1)" by (cases "downloadURL dl lookupResult s")
    obtain r2 s2 where u2: "downloadURL dl lookupResult s1 = (r2, s2)" by (cases "downloadURL dl lookupResult s1")
    from downloadURL_trace [OF u1] downloadURL_trace [OF u2] run vm fz True u1 u2
    show ?thesis
      by (auto simp: downloadModAsync_def downloadMatching_def then_p_def resolve_def
          split: sum.splits if_splits)
  next
    case False
    with run vm fz \<open>fuzzyMatch dl requirement\<close> show ?thesis
      by (auto simp: downloadModAsync_def downloadMatching_def then_p_def resolve_def reject_def
          call_def startDownloadUpdateEvent_def
          split: sum.splits if_splits prod.splits option.splits)
  qed
qed



theorem downloadModAsync_path_witness:
  "downloadModAsync sim_dl (sim_ref (Some ''1.x'')) (sim_lookup (Some ''42'') (Some ''7'')) sw0
     = (Inr (Some ''dl-update''),
        sw0\<lparr>trace := [EmitEvent ''start-download-update'' [''42'', ''7'', ''1.x'']]\<rparr>)
   \<and> trace (sw0\<lparr>trace := [EmitEvent ''start-download-update'' [''42'', ''7'', ''1.x'']]\<rparr>)
       = trace sw0 @ [startDownloadUpdateEvent (sim_lookup (Some ''42'') (Some ''7'')) ''1.x'']
   \<and> downloadModAsync sim_dl (sim_ref (Some ''1.0.0'')) (sim_lookup (Some ''42'') (Some ''7'')) sw0
     = (Inr (Some ''dl-url''),
        sw0\<lparr>trace := [EmitEvent ''start-download'' [''https://example.org/file'']]\<rparr>)"
proof -
  have run: "downloadModAsync sim_dl (sim_ref (Some ''1.x''))
      (sim_lookup (Some ''42'') (Some ''7'')) sw0
     = (Inr (Some ''dl-update''),
        sw0\<lparr>trace := [EmitEvent ''start-download-update'' [''42'', ''7'', ''1.x'']]\<rparr>)"
    by code_simp
  have fz: "fuzzyMatch sim_dl (sim_ref (Some ''1.x''))" by code_simp
  have ids: "details_modId (sim_lookup (Some ''42'') (Some ''7'')) \<noteq> None" by code_simp
  have vm: "the (versionMatch (sim_ref (Some ''1.x''))) = ''1.x''" by code_simp
  have other: "downloadModAsync sim_dl (sim_ref (Some ''1.0.0''))
      (sim_lookup (Some ''42'') (Some ''7'')) sw0
     = (Inr (Some ''dl-url''),
        sw0\<lparr>trace := [EmitEvent ''start-download'' [''https://example.org/file'']]\<rparr>)"
    by code_simp
  from downloadModAsync_path [OF run] fz ids vm run other show ?thesis by simp
qed



lemma installDependency_thrown:
  fixes s :: "('w, 'z) st_scheme"
  assumes "(dlPromise dl downloads dep :: err + ('w, 'z, string option) prom) = Inl thrown"
  shows "installDependency env api dl profile downloads dep s = (Inl thrown, s)"
  using assms by (simp add: installDependency_def reject_def)
















end
